theory Spec2Isabelle
  imports Complex_Main "HOL-Library.AList"
begin

section \<open>JavaScript numbers\<close>

text \<open>
  The scanner and the executor compute with JavaScript numbers. A number is modelled as
  an exact real or one of the three special values of IEEE arithmetic; rounding,
  overflow to infinity and the sign of zero are not modelled. Division by zero is
  written out, since \<open>x / 0\<close> is \<open>NaN\<close> or an infinity in the source
  and \<open>0\<close> in HOL.
\<close>

datatype jsnum = Fin real | PInf | NInf | NaN

fun jneg :: "jsnum \<Rightarrow> jsnum" where
  "jneg (Fin a) = Fin (- a)"
| "jneg PInf = NInf"
| "jneg NInf = PInf"
| "jneg NaN = NaN"

fun jadd :: "jsnum \<Rightarrow> jsnum \<Rightarrow> jsnum" where
  "jadd NaN _ = NaN"
| "jadd _ NaN = NaN"
| "jadd (Fin a) (Fin b) = Fin (a + b)"
| "jadd (Fin a) PInf = PInf"
| "jadd (Fin a) NInf = NInf"
| "jadd PInf (Fin b) = PInf"
| "jadd NInf (Fin b) = NInf"
| "jadd PInf PInf = PInf"
| "jadd NInf NInf = NInf"
| "jadd PInf NInf = NaN"
| "jadd NInf PInf = NaN"

definition jsub :: "jsnum \<Rightarrow> jsnum \<Rightarrow> jsnum" where
  "jsub a b = jadd a (jneg b)"

text \<open>An infinity with the sign of a real; the product or quotient with zero is NaN.\<close>

definition signed_inf :: "real \<Rightarrow> jsnum" where
  "signed_inf s = (if s = 0 then NaN else if 0 < s then PInf else NInf)"

fun jmul :: "jsnum \<Rightarrow> jsnum \<Rightarrow> jsnum" where
  "jmul NaN _ = NaN"
| "jmul _ NaN = NaN"
| "jmul (Fin a) (Fin b) = Fin (a * b)"
| "jmul (Fin a) PInf = signed_inf a"
| "jmul (Fin a) NInf = signed_inf (- a)"
| "jmul PInf (Fin b) = signed_inf b"
| "jmul NInf (Fin b) = signed_inf (- b)"
| "jmul PInf PInf = PInf"
| "jmul NInf NInf = PInf"
| "jmul PInf NInf = NInf"
| "jmul NInf PInf = NInf"

fun jdiv :: "jsnum \<Rightarrow> jsnum \<Rightarrow> jsnum" where
  "jdiv NaN _ = NaN"
| "jdiv _ NaN = NaN"
| "jdiv (Fin a) (Fin b) = (if b = 0 then signed_inf a else Fin (a / b))"
| "jdiv (Fin a) PInf = Fin 0"
| "jdiv (Fin a) NInf = Fin 0"
| "jdiv PInf (Fin b) = (if 0 \<le> b then PInf else NInf)"
| "jdiv NInf (Fin b) = (if 0 \<le> b then NInf else PInf)"
| "jdiv PInf PInf = NaN"
| "jdiv NInf NInf = NaN"
| "jdiv PInf NInf = NaN"
| "jdiv NInf PInf = NaN"

fun jabs :: "jsnum \<Rightarrow> jsnum" where
  "jabs (Fin a) = Fin \<bar>a\<bar>"
| "jabs PInf = PInf"
| "jabs NInf = PInf"
| "jabs NaN = NaN"

text \<open>Comparisons: every comparison with NaN is false.\<close>

fun jlt :: "jsnum \<Rightarrow> jsnum \<Rightarrow> bool" where
  "jlt NaN _ = False"
| "jlt _ NaN = False"
| "jlt (Fin a) (Fin b) = (a < b)"
| "jlt (Fin a) PInf = True"
| "jlt (Fin a) NInf = False"
| "jlt PInf _ = False"
| "jlt NInf (Fin b) = True"
| "jlt NInf PInf = True"
| "jlt NInf NInf = False"

fun jge :: "jsnum \<Rightarrow> jsnum \<Rightarrow> bool" where
  "jge NaN _ = False"
| "jge _ NaN = False"
| "jge a b = (\<not> jlt a b)"

definition jgt :: "jsnum \<Rightarrow> jsnum \<Rightarrow> bool" where
  "jgt a b = jlt b a"

text \<open>\<open>Math.min\<close> and \<open>Math.max\<close>: NaN if either argument is NaN.\<close>

fun jmin :: "jsnum \<Rightarrow> jsnum \<Rightarrow> jsnum" where
  "jmin NaN _ = NaN"
| "jmin _ NaN = NaN"
| "jmin a b = (if jlt b a then b else a)"

fun jmax :: "jsnum \<Rightarrow> jsnum \<Rightarrow> jsnum" where
  "jmax NaN _ = NaN"
| "jmax _ NaN = NaN"
| "jmax a b = (if jlt a b then b else a)"

text \<open>
  \<open>parseFloat(x.toFixed(6))\<close>: a finite number is rounded to six decimals,
  halves away from zero; the special values print and parse back as themselves.
\<close>

fun toFixed6 :: "jsnum \<Rightarrow> jsnum" where
  "toFixed6 (Fin a) =
     (if 0 \<le> a then Fin (real_of_int \<lfloor>a * 10 ^ 6 + 1 / 2\<rfloor> / 10 ^ 6)
      else Fin (- (real_of_int \<lfloor>(- a) * 10 ^ 6 + 1 / 2\<rfloor> / 10 ^ 6)))"
| "toFixed6 PInf = PInf"
| "toFixed6 NInf = NInf"
| "toFixed6 NaN = NaN"

section \<open>Data model of the scanner (opportunityScanner.ts)\<close>

record token_meta =
  symbol :: string
  decimals :: nat

text \<open>
  A quote of the DEX aggregator; \<open>toAmount\<close> and \<open>fromAmount\<close> hold
  what \<open>parseFloat\<close> reads from the quote's amount strings.
\<close>

record dex_quote =
  toAmount :: jsnum
  fromAmount :: jsnum
  dex :: string
  fromToken :: token_meta
  toToken :: token_meta

record token_ref =
  address :: string
  tsymbol :: string
  tdecimals :: nat

text \<open>
  The id is the template string \<open>tokenIn-tokenOut-Date.now()-random\<close>; it is kept
  as its four interpolated parts.
\<close>

record opportunity_id =
  id_tokenIn :: string
  id_tokenOut :: string
  id_now :: int
  id_random :: string

text \<open>
  \<open>flashLoanAmount\<close> is \<open>loanAmount.toString()\<close> of an integer column; the field
  holds that integer.
\<close>

record arbitrage_opportunity =
  opp_id :: opportunity_id
  tokenIn :: token_ref
  tokenOut :: token_ref
  buyDex :: string
  sellDex :: string
  buyPrice :: jsnum
  sellPrice :: jsnum
  profitPercent :: jsnum
  netProfitPercent :: jsnum
  estimatedProfitUsd :: jsnum
  flashLoanAmount :: int
  estimatedGasCostUsd :: jsnum
  flashLoanFeeUsd :: jsnum
  route_buy :: "string list"
  route_sell :: "string list"
  timestamp :: int
  isValid :: bool

record token_pair =
  pair_tokenIn :: string
  pair_tokenOut :: string

record scanner_config =
  minProfitPercent :: real
  minNetProfitPercent :: real
  minProfitUsd :: real
  maxGasPriceGwei :: real
  scanIntervalMs :: int
  tokenPairs :: "token_pair list"
  dexList :: "string list"

section \<open>The price comparator (scanTokenPair, lines 372-439)\<close>

definition price :: "dex_quote \<Rightarrow> jsnum" where
  "price q = jdiv (toAmount q) (fromAmount q)"

definition priceDiff :: "dex_quote \<Rightarrow> dex_quote \<Rightarrow> jsnum" where
  "priceDiff q1 q2 = jabs (jsub (price q1) (price q2))"

definition avgPrice :: "dex_quote \<Rightarrow> dex_quote \<Rightarrow> jsnum" where
  "avgPrice q1 q2 = jdiv (jadd (price q1) (price q2)) (Fin 2)"

definition grossPercent :: "dex_quote \<Rightarrow> dex_quote \<Rightarrow> jsnum" where
  "grossPercent q1 q2 = jmul (jdiv (priceDiff q1 q2) (avgPrice q1 q2)) (Fin 100)"

definition estimatedGas :: int where
  "estimatedGas = 500000"

definition maticPriceUsd :: real where
  "maticPriceUsd = 7 / 10"

definition flashLoanFeePercent :: real where
  "flashLoanFeePercent = 5 / 10000"

text \<open>
  \<open>BigInt(estimatedGas) * BigInt(Math.floor(gasGwei * 1e9))\<close>, then
  \<open>parseFloat(ethers.formatEther(gasCostWei))\<close>, then times the fixed MATIC price.
\<close>

definition gasCostWei :: "real \<Rightarrow> int" where
  "gasCostWei gasGwei = estimatedGas * \<lfloor>gasGwei * 10 ^ 9\<rfloor>"

definition gasCostEth :: "real \<Rightarrow> real" where
  "gasCostEth gasGwei = real_of_int (gasCostWei gasGwei) / 10 ^ 18"

definition gasCostUsd :: "real \<Rightarrow> jsnum" where
  "gasCostUsd gasGwei = Fin (gasCostEth gasGwei * maticPriceUsd)"

definition loanFeeUsd :: "int \<Rightarrow> jsnum" where
  "loanFeeUsd loanAmount = Fin (real_of_int loanAmount * flashLoanFeePercent)"

definition grossProfitUsd :: "int \<Rightarrow> dex_quote \<Rightarrow> dex_quote \<Rightarrow> jsnum" where
  "grossProfitUsd loanAmount q1 q2 = jmul (priceDiff q1 q2) (Fin (real_of_int loanAmount))"

definition netProfitUsd :: "int \<Rightarrow> real \<Rightarrow> dex_quote \<Rightarrow> dex_quote \<Rightarrow> jsnum" where
  "netProfitUsd loanAmount gasGwei q1 q2 =
     jsub (jsub (grossProfitUsd loanAmount q1 q2) (gasCostUsd gasGwei)) (loanFeeUsd loanAmount)"

definition netPercent :: "int \<Rightarrow> real \<Rightarrow> dex_quote \<Rightarrow> dex_quote \<Rightarrow> jsnum" where
  "netPercent loanAmount gasGwei q1 q2 =
     jmul (jdiv (netProfitUsd loanAmount gasGwei q1 q2) (Fin (real_of_int loanAmount))) (Fin 100)"

text \<open>The guard of the \<open>if\<close> at line 399.\<close>

definition isProfitable ::
  "scanner_config \<Rightarrow> int \<Rightarrow> real \<Rightarrow> dex_quote \<Rightarrow> dex_quote \<Rightarrow> bool" where
  "isProfitable config loanAmount gasGwei q1 q2 =
     (jge (grossPercent q1 q2) (Fin (minProfitPercent config)) \<and>
      jge (netPercent loanAmount gasGwei q1 q2) (Fin (minNetProfitPercent config)) \<and>
      jge (netProfitUsd loanAmount gasGwei q1 q2) (Fin (minProfitUsd config)))"

text \<open>
  What the clock and the random generator return while one opportunity object is
  built: \<open>Date.now()\<close> for the id, the random suffix, \<open>Date.now()\<close> for the
  timestamp.
\<close>

record stamp =
  st_id_now :: int
  st_random :: string
  st_timestamp :: int

definition makeOpportunity ::
  "string \<Rightarrow> string \<Rightarrow> int \<Rightarrow> real \<Rightarrow> stamp \<Rightarrow> dex_quote \<Rightarrow> dex_quote
     \<Rightarrow> arbitrage_opportunity" where
  "makeOpportunity tIn tOut loanAmount gasGwei st q1 q2 =
     \<lparr> opp_id = \<lparr> id_tokenIn = tIn, id_tokenOut = tOut,
                  id_now = st_id_now st, id_random = st_random st \<rparr>,
       tokenIn = \<lparr> address = tIn, tsymbol = symbol (fromToken q1),
                   tdecimals = decimals (fromToken q1) \<rparr>,
       tokenOut = \<lparr> address = tOut, tsymbol = symbol (toToken q1),
                    tdecimals = decimals (toToken q1) \<rparr>,
       buyDex = (if jlt (price q1) (price q2) then dex q1 else dex q2),
       sellDex = (if jlt (price q1) (price q2) then dex q2 else dex q1),
       buyPrice = jmin (price q1) (price q2),
       sellPrice = jmax (price q1) (price q2),
       profitPercent = grossPercent q1 q2,
       netProfitPercent = netPercent loanAmount gasGwei q1 q2,
       estimatedProfitUsd = netProfitUsd loanAmount gasGwei q1 q2,
       flashLoanAmount = loanAmount,
       estimatedGasCostUsd = gasCostUsd gasGwei,
       flashLoanFeeUsd = loanFeeUsd loanAmount,
       route_buy = [tIn, tOut],
       route_sell = [tOut, tIn],
       timestamp = st_timestamp st,
       isValid = True \<rparr>"

text \<open>The body of the inner loop for one pair of fulfilled quotes.\<close>

definition comparePair ::
  "scanner_config \<Rightarrow> string \<Rightarrow> string \<Rightarrow> int \<Rightarrow> real \<Rightarrow> stamp \<Rightarrow> dex_quote \<Rightarrow> dex_quote
     \<Rightarrow> arbitrage_opportunity option" where
  "comparePair config tIn tOut loanAmount gasGwei st q1 q2 =
     (if isProfitable config loanAmount gasGwei q1 q2
      then Some (makeOpportunity tIn tOut loanAmount gasGwei st q1 q2)
      else None)"

section \<open>Configuration, collaborators and their trace\<close>

text \<open>
  The stored bot configuration (shared/schema.ts), with the columns the scanner and the
  executor read. A nullable column is an option; a numeric column holds the number that
  \<open>parseFloat\<close> reads from it.
\<close>

record bot_config =
  bc_networkMode :: string
  bc_privateKey :: "string option"
  bc_minNetProfitPercent :: "real option"
  bc_flashLoanAmount :: "int option"
  bc_flashLoanContract :: "string option"
  bc_oneinchApiKey :: "string option"
  bc_maxGasPriceGwei :: "int option"
  bc_enableRealTrading :: "bool option"
  bc_useSimulation :: "bool option"
  bc_telegramProfitThresholdUsd :: "real option"

text \<open>
  A request to \<open>dexAggregator.buildSwapTransaction\<close>. The amount is a decimal string
  in the source and is held as the number it prints.
\<close>

record swap_request =
  sr_src :: string
  sr_dst :: string
  sr_amount :: jsnum
  sr_from :: string
  sr_slippage :: nat
  sr_disableEstimate :: bool
  sr_allowPartialFill :: bool

record flash_loan_request =
  fl_asset :: string
  fl_amount :: int
  fl_receiverAddress :: string
  fl_buyRouter :: string
  fl_buyData :: string
  fl_sellRouter :: string
  fl_sellData :: string
  fl_minProfit :: int
  fl_privateKey :: "string option"

text \<open>
  Every call to a collaborator is an event of the trace, in program order. An activity
  log entry is named by the \<open>step\<close> of its metadata (or by a tag where the entry has
  none). Storage reads and writes and notifications are taken to succeed.
\<close>

datatype event =
    ActivityLog string
  | GetGasPrice
  | GetQuote string string int
  | ExecuteTrade opportunity_id bool
  | UpdateBotStatus nat
  | GetNativeBalance string int
  | BuildSwapTransaction swap_request
  | GetCode string int
  | ExecuteFlashLoan flash_loan_request
  | CreateArbitrageTransaction string string
  | SendTelegramMessage string

section \<open>Scanning one token pair (scanTokenPair)\<close>

text \<open>
  What the collaborators answer during one call of scanTokenPair: the three
  \<open>getQuote\<close> calls (None: the promise is rejected), the values of
  \<open>Math.random()\<close> in the two simulated venues, and the stamp of the opportunity
  built from quotes \<open>i\<close> and \<open>j\<close>.
\<close>

record pair_env =
  pe_quote1 :: "dex_quote option"
  pe_base2 :: "dex_quote option"
  pe_rand2 :: "real \<times> real \<times> real"
  pe_base3 :: "dex_quote option"
  pe_rand3 :: "real \<times> real \<times> real"
  pe_stamp :: "nat \<Rightarrow> nat \<Rightarrow> stamp"

definition simulateSecondDexQuote ::
  "dex_quote option \<Rightarrow> real \<times> real \<times> real \<Rightarrow> dex_quote option" where
  "simulateSecondDexQuote base r =
     (case (base, r) of
        (None, _) \<Rightarrow> None
      | (Some baseQuote, (r1, r2, r3)) \<Rightarrow>
          (let priceDeviation = 1 + (r1 * (15 / 1000) + 5 / 1000) * (if r2 > 1 / 2 then 1 else - 1);
               adjustedToAmount = toFixed6 (jmul (toAmount baseQuote) (Fin priceDeviation))
           in Some (baseQuote \<lparr> toAmount := adjustedToAmount,
                                 dex := (if r3 > 1 / 2 then ''SushiSwap'' else ''Uniswap V3'') \<rparr>)))"

definition simulateThirdDexQuote ::
  "dex_quote option \<Rightarrow> real \<times> real \<times> real \<Rightarrow> dex_quote option" where
  "simulateThirdDexQuote base r =
     (case (base, r) of
        (None, _) \<Rightarrow> None
      | (Some baseQuote, (r1, r2, r3)) \<Rightarrow>
          (let priceDeviation = 1 + (r1 * (12 / 1000) + 3 / 1000) * (if r2 > 1 / 2 then 1 else - 1);
               adjustedToAmount = toFixed6 (jmul (toAmount baseQuote) (Fin priceDeviation))
           in Some (baseQuote \<lparr> toAmount := adjustedToAmount,
                                 dex := (if r3 > 1 / 2 then ''Balancer'' else ''Curve'') \<rparr>)))"

text \<open>\<open>botConfig?.flashLoanAmount || 10000\<close>: a missing or zero amount is 10000.\<close>

definition loanAmountOf :: "bot_config option \<Rightarrow> int" where
  "loanAmountOf botConfig =
     (case botConfig of
        None \<Rightarrow> 10000
      | Some c \<Rightarrow> (case bc_flashLoanAmount c of
                     None \<Rightarrow> 10000
                   | Some n \<Rightarrow> if n = 0 then 10000 else n))"

text \<open>The index pairs \<open>i < j\<close> of the two nested loops, in the order they run.\<close>

definition quotePairs :: "nat \<Rightarrow> (nat \<times> nat) list" where
  "quotePairs n = concat (map (\<lambda>i. map (\<lambda>j. (i, j)) [i + 1 ..< n]) [0 ..< n])"

definition compareQuotes ::
  "scanner_config \<Rightarrow> string \<Rightarrow> string \<Rightarrow> int \<Rightarrow> real \<Rightarrow> (nat \<Rightarrow> nat \<Rightarrow> stamp)
     \<Rightarrow> dex_quote option list \<Rightarrow> nat \<times> nat \<Rightarrow> arbitrage_opportunity option" where
  "compareQuotes config tIn tOut loanAmount gasGwei st dexQuotes ij =
     (case ij of (i, j) \<Rightarrow>
        (case (dexQuotes ! i, dexQuotes ! j) of
           (Some q1, Some q2) \<Rightarrow> comparePair config tIn tOut loanAmount gasGwei (st i j) q1 q2
         | _ \<Rightarrow> None))"

definition dexQuotesOf :: "pair_env \<Rightarrow> dex_quote option list" where
  "dexQuotesOf pe =
     [pe_quote1 pe,
      simulateSecondDexQuote (pe_base2 pe) (pe_rand2 pe),
      simulateThirdDexQuote (pe_base3 pe) (pe_rand3 pe)]"

text \<open>
  scanTokenPair returns the opportunities it pushed; the model also returns the quote
  requests it issued, each for \<open>ethers.parseUnits(loanAmount.toString(), 6)\<close>.
\<close>

definition scanTokenPair ::
  "bot_config option \<Rightarrow> string \<Rightarrow> string \<Rightarrow> scanner_config \<Rightarrow> real \<Rightarrow> pair_env
     \<Rightarrow> arbitrage_opportunity list \<times> event list" where
  "scanTokenPair botConfig tIn tOut config gasGwei pe =
     (let loanAmount = loanAmountOf botConfig;
          loanAmountWei = loanAmount * 10 ^ 6;
          dexQuotes = dexQuotesOf pe
      in (List.map_filter
            (compareQuotes config tIn tOut loanAmount gasGwei (pe_stamp pe) dexQuotes)
            (quotePairs (length dexQuotes)),
          [GetQuote tIn tOut loanAmountWei, GetQuote tIn tOut loanAmountWei,
           GetQuote tIn tOut loanAmountWei]))"

section \<open>The registry and one scan cycle (scan)\<close>

text \<open>
  The registry is the JavaScript \<open>Map\<close> from id to opportunity: an association list
  in insertion order, where \<open>set\<close> replaces the value of a key that is present and
  appends a new key.
\<close>

type_synonym registry = "(opportunity_id \<times> arbitrage_opportunity) list"

definition getOpportunities :: "registry \<Rightarrow> arbitrage_opportunity list" where
  "getOpportunities reg = map snd reg"

definition insertAll :: "arbitrage_opportunity list \<Rightarrow> registry \<Rightarrow> registry" where
  "insertAll newOpportunities reg =
     fold (\<lambda>opp r. AList.update (opp_id opp) opp r) newOpportunities reg"

definition isStale :: "int \<Rightarrow> arbitrage_opportunity \<Rightarrow> bool" where
  "isStale now opp = (now - timestamp opp > 60000)"

definition evictStale :: "int \<Rightarrow> registry \<Rightarrow> registry" where
  "evictStale now reg = filter (\<lambda>(i, opp). \<not> isStale now opp) reg"

text \<open>
  What the collaborators answer during one cycle: the gas price in Gwei (None:
  \<open>getGasPrice\<close> throws), the stored configuration, the answers for the \<open>k\<close>-th
  configured pair, and \<open>Date.now()\<close> when the eviction pass starts.
\<close>

record scan_env =
  se_gasPrice :: "real option"
  se_botConfig :: "bot_config option"
  se_pair :: "nat \<Rightarrow> pair_env"
  se_now :: int

definition isSimulationOf :: "bot_config option \<Rightarrow> bool" where
  "isSimulationOf botConfig =
     (case botConfig of None \<Rightarrow> True | Some c \<Rightarrow> bc_useSimulation c \<noteq> Some False)"

definition scanPairs ::
  "scanner_config \<Rightarrow> scan_env \<Rightarrow> real \<Rightarrow> (arbitrage_opportunity list \<times> event list) list" where
  "scanPairs config env gasGwei =
     map (\<lambda>(k, pair). scanTokenPair (se_botConfig env) (pair_tokenIn pair) (pair_tokenOut pair)
                         config gasGwei (se_pair env k))
         (enumerate 0 (tokenPairs config))"

definition newOpportunitiesOf ::
  "scanner_config \<Rightarrow> scan_env \<Rightarrow> real \<Rightarrow> arbitrage_opportunity list" where
  "newOpportunitiesOf config env gasGwei = concat (map fst (scanPairs config env gasGwei))"

definition dispatchEvents :: "bot_config option \<Rightarrow> arbitrage_opportunity \<Rightarrow> event list" where
  "dispatchEvents botConfig opp =
     [ActivityLog ''auto_execute'', ExecuteTrade (opp_id opp) (isSimulationOf botConfig)]"

text \<open>
  One cycle: the new registry and the trace. The pairs are scanned concurrently in the
  source; their requests appear in the trace in the order of the configured pairs.
  The observer callbacks are not part of the model.
\<close>

definition scan :: "scanner_config \<Rightarrow> scan_env \<Rightarrow> registry \<Rightarrow> registry \<times> event list" where
  "scan config env reg =
     (case se_gasPrice env of
        None \<Rightarrow> (reg, [ActivityLog ''1_preparation'', GetGasPrice, ActivityLog ''scan_error''])
      | Some gasGwei \<Rightarrow>
          if gasGwei > maxGasPriceGwei config
          then (reg, [ActivityLog ''1_preparation'', GetGasPrice,
                      ActivityLog ''1_gas_check_failed''])
          else
            (let results = scanPairs config env gasGwei;
                 newOpportunities = newOpportunitiesOf config env gasGwei;
                 inserted = insertAll newOpportunities reg;
                 kept = evictStale (se_now env) inserted
             in (kept,
                 [ActivityLog ''1_preparation'', GetGasPrice,
                  ActivityLog ''2_dex_connection'', ActivityLog ''3_pair_analysis'']
                 @ concat (map snd results)
                 @ [ActivityLog (if newOpportunities \<noteq> [] then ''4_results'' else ''4_no_results'')]
                 @ concat (map (dispatchEvents (se_botConfig env)) newOpportunities)
                 @ [UpdateBotStatus (length kept)])))"

text \<open>
  The route \<open>POST /api/arbitrage/execute\<close> (routes.ts): the opportunity handed to the
  executor is the first entry of getOpportunities with the requested id.
\<close>

definition manualExecute :: "registry \<Rightarrow> opportunity_id \<Rightarrow> arbitrage_opportunity option" where
  "manualExecute reg i = find (\<lambda>opp. opp_id opp = i) (getOpportunities reg)"

section \<open>The trade executor (tradeExecutor.ts)\<close>

text \<open>
  The errors thrown inside executeArbitrageTrade, one constructor per \<open>throw\<close> or
  throwing collaborator call, and the result it returns. The message text of the result
  is left out.
\<close>

datatype exec_error =
    BotConfigurationNotFound
  | RealTradingDisabled
  | InvalidPrivateKeyFormat
  | PrivateKeyNotConfigured
  | GasPriceNotAvailable
  | GasPriceTooHigh
  | OneInchApiKeyNotConfigured
  | PrivateKeyRequired
  | InvalidWalletKey
  | BuildBuySwapFailed
  | BuildSellSwapFailed
  | ArbitrageContractNotConfigured
  | InvalidBuyRouter
  | InvalidSellRouter
  | BuySwapDataMissing
  | SellSwapDataMissing
  | GetCodeFailed
  | ContractNotDeployed
  | FlashLoanFailed

record trade_execution_result =
  r_success :: bool
  r_txHash :: "string option"
  r_profitUsd :: "jsnum option"
  r_gasCostUsd :: "jsnum option"
  r_error :: "exec_error option"
  r_executionTime :: int

record swap_tx =
  tx_to :: "string option"
  tx_data :: "string option"

record swap_result =
  sw_toAmount :: jsnum
  sw_dex :: string
  sw_tx :: "swap_tx option"

record flash_result =
  fr_success :: bool
  fr_txHash :: "string option"
  fr_error :: "string option"

text \<open>
  What the collaborators answer during one execution attempt; None is a call that
  throws. \<open>ee_walletAddress\<close> is \<open>new ethers.Wallet(key).address\<close>,
  \<open>ee_random1\<close> and \<open>ee_random2\<close> are \<open>Math.random().toString(16)\<close>,
  \<open>ee_startTime\<close> and \<open>ee_endTime\<close> are \<open>Date.now()\<close> when the attempt
  starts and when its result is built.
\<close>

record exec_env =
  ee_config :: "bot_config option"
  ee_PRIVATE_KEY :: "string option"
  ee_ARBITRAGE_CONTRACT :: "string option"
  ee_walletAddress :: "string \<Rightarrow> string option"
  ee_nativeBalance :: "string \<Rightarrow> int \<Rightarrow> jsnum option"
  ee_gasPrice :: "real option"
  ee_random1 :: string
  ee_random2 :: string
  ee_buySwap :: "swap_request \<Rightarrow> swap_result option"
  ee_sellSwap :: "swap_request \<Rightarrow> swap_result option"
  ee_isAddress :: "string \<Rightarrow> bool"
  ee_getCode :: "string \<Rightarrow> int \<Rightarrow> string option"
  ee_flashLoan :: "flash_loan_request \<Rightarrow> flash_result option"
  ee_startTime :: int
  ee_endTime :: int

text \<open>JavaScript truthiness of an optional string, and \<open>a || b\<close>.\<close>

definition truthy :: "string option \<Rightarrow> bool" where
  "truthy s = (case s of None \<Rightarrow> False | Some x \<Rightarrow> x \<noteq> [])"

definition orElse :: "string option \<Rightarrow> string option \<Rightarrow> string option" where
  "orElse a b = (if truthy a then a else b)"

definition isSpace :: "char \<Rightarrow> bool" where
  "isSpace c = (c \<in> set [CHR '' '', CHR 0x09, CHR 0x0A, CHR 0x0B, CHR 0x0C, CHR 0x0D])"

definition trim :: "string \<Rightarrow> string" where
  "trim s = rev (dropWhile isSpace (rev (dropWhile isSpace s)))"

fun jfloor :: "jsnum \<Rightarrow> jsnum" where
  "jfloor (Fin a) = Fin (real_of_int \<lfloor>a\<rfloor>)"
| "jfloor PInf = PInf"
| "jfloor NInf = NInf"
| "jfloor NaN = NaN"

text \<open>Division of BigInt values truncates towards zero.\<close>

definition bigint_div :: "int \<Rightarrow> int \<Rightarrow> int" where
  "bigint_div a b = sgn a * sgn b * (\<bar>a\<bar> div \<bar>b\<bar>)"

text \<open>Sequencing of two stages: the first error ends the attempt, the traces append.\<close>

definition andThen ::
  "(exec_error + 'a) \<times> event list \<Rightarrow> ('a \<Rightarrow> (exec_error + 'b) \<times> event list)
     \<Rightarrow> (exec_error + 'b) \<times> event list" where
  "andThen m f =
     (case m of
        (Inl e, t) \<Rightarrow> (Inl e, t)
      | (Inr a, t) \<Rightarrow> (case f a of (r, t') \<Rightarrow> (r, t @ t')))"

definition chainIdOf :: "bot_config \<Rightarrow> int" where
  "chainIdOf config = (if bc_networkMode config = ''mainnet'' then 137 else 80002)"

text \<open>
  Lines 76-81: the key of the configuration, trimmed, or else the environment's; a key
  that does not start with \<open>0x\<close> gets the prefix.
\<close>

definition resolvePrivateKey :: "bot_config \<Rightarrow> string option \<Rightarrow> string option" where
  "resolvePrivateKey config envKey =
     (case orElse (map_option trim (bc_privateKey config)) envKey of
        None \<Rightarrow> None
      | Some k \<Rightarrow> if k \<noteq> [] \<and> take 2 k \<noteq> ''0x'' then Some (''0x'' @ k) else Some k)"

text \<open>Lines 60-121: configuration, mode and key checks.\<close>

definition checkConfigAndKey ::
  "exec_env \<Rightarrow> bool \<Rightarrow> (exec_error + bot_config \<times> string option) \<times> event list" where
  "checkConfigAndKey env isSimulation =
     (case ee_config env of
        None \<Rightarrow> (Inl BotConfigurationNotFound, [])
      | Some config \<Rightarrow>
          if \<not> isSimulation \<and> bc_enableRealTrading config \<noteq> Some True
          then (Inl RealTradingDisabled, [])
          else
            (let privateKey = resolvePrivateKey config (ee_PRIVATE_KEY env)
             in if truthy privateKey \<and> map_option length privateKey \<noteq> Some 66
                then (Inl InvalidPrivateKeyFormat, [ActivityLog ''2_validation_failed''])
                else if \<not> isSimulation \<and> \<not> truthy privateKey
                then (Inl PrivateKeyNotConfigured, [ActivityLog ''2_validation_failed''])
                else (Inr (config, privateKey), [ActivityLog ''2_key_validation''])))"

text \<open>
  Lines 123-164: the balance check of real mode. Its \<open>throw\<close> for a low balance is
  inside the \<open>try\<close> whose \<open>catch\<close> only logs, so this stage never ends the attempt.
\<close>

definition checkBalance :: "exec_env \<Rightarrow> bot_config \<Rightarrow> string option \<Rightarrow> bool \<Rightarrow> event list" where
  "checkBalance env config privateKey isSimulation =
     (case privateKey of
        None \<Rightarrow> []
      | Some key \<Rightarrow>
          if isSimulation \<or> key = [] then []
          else
            (case ee_walletAddress env key of
               None \<Rightarrow> [ActivityLog ''3_balance_check_failed'']
             | Some walletAddress \<Rightarrow>
                 GetNativeBalance walletAddress (chainIdOf config) #
                 (case ee_nativeBalance env walletAddress (chainIdOf config) of
                    None \<Rightarrow> [ActivityLog ''3_balance_check_failed'']
                  | Some currentMatic \<Rightarrow>
                      ActivityLog ''3_balance_check'' #
                      (if jlt currentMatic (Fin (1 / 10))
                       then [ActivityLog ''3_balance_check_failed''] else []))))"

definition maxGasOf :: "bot_config \<Rightarrow> real" where
  "maxGasOf config =
     (case bc_maxGasPriceGwei config of
        None \<Rightarrow> 60
      | Some n \<Rightarrow> if n = 0 then 60 else real_of_int n)"

text \<open>Lines 166-196: the gas check.\<close>

definition checkGas :: "exec_env \<Rightarrow> bot_config \<Rightarrow> (exec_error + unit) \<times> event list" where
  "checkGas env config =
     (case ee_gasPrice env of
        None \<Rightarrow> (Inl GasPriceNotAvailable, [GetGasPrice])
      | Some currentGasGwei \<Rightarrow>
          if currentGasGwei > maxGasOf config
          then (Inl GasPriceTooHigh,
                [GetGasPrice, ActivityLog ''4_gas_check'', ActivityLog ''4_gas_too_high''])
          else (Inr (), [GetGasPrice, ActivityLog ''4_gas_check'']))"

definition randomTxHash :: "exec_env \<Rightarrow> string" where
  "randomTxHash env = ''0x'' @ drop 2 (ee_random1 env) @ drop 2 (ee_random2 env)"

definition profitThresholdOf :: "bot_config \<Rightarrow> real" where
  "profitThresholdOf config =
     (case bc_telegramProfitThresholdUsd config of None \<Rightarrow> 10 | Some t \<Rightarrow> t)"

text \<open>Lines 198-265: the simulation branch.\<close>

definition simulateTrade ::
  "exec_env \<Rightarrow> bot_config \<Rightarrow> arbitrage_opportunity
     \<Rightarrow> (exec_error + trade_execution_result) \<times> event list" where
  "simulateTrade env config opportunity =
     (let mockTxHash = randomTxHash env
      in (Inr \<lparr> r_success = True, r_txHash = Some mockTxHash,
                 r_profitUsd = Some (estimatedProfitUsd opportunity),
                 r_gasCostUsd = Some (estimatedGasCostUsd opportunity),
                 r_error = None,
                 r_executionTime = ee_endTime env - ee_startTime env \<rparr>,
          [ActivityLog ''5_mock_transaction'', ActivityLog ''7_completed'',
           CreateArbitrageTransaction mockTxHash ''success'']
          @ (if jge (estimatedProfitUsd opportunity) (Fin (profitThresholdOf config))
             then [SendTelegramMessage ''trade_success''] else [])))"

text \<open>
  Lines 267-459: the two route requests of real mode. A failure of the buy leg ends
  the attempt before the sell leg is requested. The result carries the loan amount of
  \<open>ethers.parseUnits(flashLoanAmount, decimals)\<close> and both legs.
\<close>

definition buyRequest :: "arbitrage_opportunity \<Rightarrow> int \<Rightarrow> string \<Rightarrow> swap_request" where
  "buyRequest opportunity loanAmount walletAddress =
     \<lparr> sr_src = address (tokenIn opportunity), sr_dst = address (tokenOut opportunity),
       sr_amount = Fin (real_of_int loanAmount), sr_from = walletAddress,
       sr_slippage = 1, sr_disableEstimate = False, sr_allowPartialFill = False \<rparr>"

definition sellRequest :: "arbitrage_opportunity \<Rightarrow> swap_result \<Rightarrow> string \<Rightarrow> swap_request" where
  "sellRequest opportunity buySwap walletAddress =
     \<lparr> sr_src = address (tokenOut opportunity), sr_dst = address (tokenIn opportunity),
       sr_amount = jfloor (sw_toAmount buySwap), sr_from = walletAddress,
       sr_slippage = 1, sr_disableEstimate = False, sr_allowPartialFill = False \<rparr>"

definition buildSwaps ::
  "exec_env \<Rightarrow> bot_config \<Rightarrow> string option \<Rightarrow> arbitrage_opportunity
     \<Rightarrow> (exec_error + int \<times> swap_result \<times> swap_result) \<times> event list" where
  "buildSwaps env config privateKey opportunity =
     (if \<not> truthy (map_option trim (bc_oneinchApiKey config))
      then (Inl OneInchApiKeyNotConfigured, [ActivityLog ''5_api_key_missing''])
      else
        (let loanAmount = flashLoanAmount opportunity * 10 ^ tdecimals (tokenIn opportunity)
         in if \<not> truthy privateKey
            then (Inl PrivateKeyRequired, [ActivityLog ''5_real_execution''])
            else
              (case ee_walletAddress env (the privateKey) of
                 None \<Rightarrow> (Inl InvalidWalletKey, [ActivityLog ''5_real_execution''])
               | Some walletAddress \<Rightarrow>
                   (let buyReq = buyRequest opportunity loanAmount walletAddress;
                        t1 = [ActivityLog ''5_real_execution'', ActivityLog ''5.1_dex_init'',
                              ActivityLog ''6_flash_loan_mode'', ActivityLog ''5.2_build_buy_swap'',
                              BuildSwapTransaction buyReq]
                    in case ee_buySwap env buyReq of
                         None \<Rightarrow> (Inl BuildBuySwapFailed, t1 @ [ActivityLog ''5.3_buy_swap_failed''])
                       | Some buySwap \<Rightarrow>
                           (let sellReq = sellRequest opportunity buySwap walletAddress;
                                t2 = t1 @ [ActivityLog ''5.3_buy_swap_ready'',
                                           ActivityLog ''5.4_build_sell_swap'',
                                           BuildSwapTransaction sellReq]
                            in case ee_sellSwap env sellReq of
                                 None \<Rightarrow>
                                   (Inl BuildSellSwapFailed,
                                    t2 @ [ActivityLog ''5.5_sell_swap_failed''])
                               | Some sellSwap \<Rightarrow>
                                   (Inr (loanAmount, buySwap, sellSwap),
                                    t2 @ [ActivityLog ''5.5_sell_swap_ready'',
                                          ActivityLog ''6_swap_preparation'']))))))"

definition DEX_ROUTERS :: "(string \<times> string) list" where
  "DEX_ROUTERS =
     [(''1inch'', ''0x1111111254EEB25477B68fb85Ed929f73A960582''),
      (''QuickSwap'', ''0xa5E0829CaCEd8fFDD4De3c43696c57F7D7A678ff''),
      (''Uniswap V3'', ''0xE592427A0AEce92De3Edee1F18E0157C05861564''),
      (''SushiSwap'', ''0x1b02dA8Cb0d097eB8D57A175b88c7D8b47997506''),
      (''Curve'', ''0x445FE580eF8d70FF569aB36e80c647af338db351''),
      (''Balancer'', ''0xBA12222222228d8Ba445958a75a0704d566BF2C8'')]"

text \<open>\<open>swap.tx?.to || DEX_ROUTERS[dexName] || arbitrageContractAddress\<close>.\<close>

definition routerAddress :: "swap_result \<Rightarrow> string \<Rightarrow> string \<Rightarrow> string" where
  "routerAddress swap dexName arbitrageContractAddress =
     (case orElse (orElse (case sw_tx swap of None \<Rightarrow> None | Some tx \<Rightarrow> tx_to tx)
                          (map_of DEX_ROUTERS dexName))
                  (Some arbitrageContractAddress) of
        None \<Rightarrow> arbitrageContractAddress
      | Some a \<Rightarrow> a)"

definition txDataOf :: "swap_result \<Rightarrow> string option" where
  "txDataOf swap = (case sw_tx swap of None \<Rightarrow> None | Some tx \<Rightarrow> tx_data tx)"

text \<open>Lines 461-646: contract checks, the flash loan call and its record.\<close>

definition flashLoanStage ::
  "exec_env \<Rightarrow> bot_config \<Rightarrow> string option \<Rightarrow> arbitrage_opportunity
     \<Rightarrow> int \<times> swap_result \<times> swap_result
     \<Rightarrow> (exec_error + trade_execution_result) \<times> event list" where
  "flashLoanStage env config privateKey opportunity legs =
     (case legs of (loanAmount, buySwap, sellSwap) \<Rightarrow>
        (case orElse (bc_flashLoanContract config) (ee_ARBITRAGE_CONTRACT env) of
           None \<Rightarrow> (Inl ArbitrageContractNotConfigured, [])
         | Some arbitrageContractAddress \<Rightarrow>
             if arbitrageContractAddress = [] then (Inl ArbitrageContractNotConfigured, [])
             else
               (let buyRouterAddress =
                      routerAddress buySwap (buyDex opportunity) arbitrageContractAddress;
                    sellRouterAddress =
                      routerAddress sellSwap (sellDex opportunity) arbitrageContractAddress;
                    t1 = [ActivityLog ''6.1_contract_address'']
                in if \<not> ee_isAddress env buyRouterAddress then (Inl InvalidBuyRouter, t1)
                   else if \<not> ee_isAddress env sellRouterAddress then (Inl InvalidSellRouter, t1)
                   else if \<not> truthy (txDataOf buySwap) then (Inl BuySwapDataMissing, t1)
                   else if \<not> truthy (txDataOf sellSwap) then (Inl SellSwapDataMissing, t1)
                   else
                     (let t2 = t1 @ [ActivityLog ''6.2_router_addresses'',
                                     GetCode arbitrageContractAddress (chainIdOf config)]
                      in case ee_getCode env arbitrageContractAddress (chainIdOf config) of
                           None \<Rightarrow> (Inl GetCodeFailed, t2)
                         | Some contractCode \<Rightarrow>
                             if contractCode = ''0x'' \<or> contractCode = ''0x0''
                             then (Inl ContractNotDeployed, t2)
                             else
                               (let minProfitAmount = bigint_div (loanAmount * 10) 10000;
                                    request =
                                      \<lparr> fl_asset = address (tokenIn opportunity),
                                        fl_amount = loanAmount,
                                        fl_receiverAddress = arbitrageContractAddress,
                                        fl_buyRouter = buyRouterAddress,
                                        fl_buyData = the (txDataOf buySwap),
                                        fl_sellRouter = sellRouterAddress,
                                        fl_sellData = the (txDataOf sellSwap),
                                        fl_minProfit = minProfitAmount,
                                        fl_privateKey = privateKey \<rparr>;
                                    t3 = t2 @ [ActivityLog ''6.3_contract_validated'',
                                               ActivityLog ''6.4_arbitrage_params'',
                                               ActivityLog ''7_execute_flashloan'',
                                               ExecuteFlashLoan request]
                                in case ee_flashLoan env request of
                                     None \<Rightarrow> (Inl FlashLoanFailed, t3)
                                   | Some result \<Rightarrow>
                                       if \<not> fr_success result then (Inl FlashLoanFailed, t3)
                                       else
                                         (let realTxHash =
                                                (if truthy (fr_txHash result)
                                                 then the (fr_txHash result)
                                                 else randomTxHash env)
                                          in (Inr \<lparr> r_success = True,
                                                     r_txHash = Some realTxHash,
                                                     r_profitUsd =
                                                       Some (estimatedProfitUsd opportunity),
                                                     r_gasCostUsd =
                                                       Some (estimatedGasCostUsd opportunity),
                                                     r_error = None,
                                                     r_executionTime =
                                                       ee_endTime env - ee_startTime env \<rparr>,
                                              t3 @ [CreateArbitrageTransaction realTxHash ''pending'',
                                                    ActivityLog ''8_transaction_sent'',
                                                    SendTelegramMessage ''trade_pending''])))))))"

text \<open>The body of the \<open>try\<close> block.\<close>

definition tradePipeline ::
  "exec_env \<Rightarrow> arbitrage_opportunity \<Rightarrow> bool
     \<Rightarrow> (exec_error + trade_execution_result) \<times> event list" where
  "tradePipeline env opportunity isSimulation =
     andThen (Inr (), [ActivityLog ''1_validation'']) (\<lambda>_.
     andThen (checkConfigAndKey env isSimulation) (\<lambda>(config, privateKey).
     andThen (Inr (), checkBalance env config privateKey isSimulation) (\<lambda>_.
     andThen (checkGas env config) (\<lambda>_.
       if isSimulation then simulateTrade env config opportunity
       else andThen (buildSwaps env config privateKey opportunity)
                    (flashLoanStage env config privateKey opportunity)))))"

text \<open>
  executeArbitrageTrade: the \<open>catch\<close> block logs the error, stores a failed
  transaction record and returns the failure.
\<close>

definition executeArbitrageTrade ::
  "exec_env \<Rightarrow> arbitrage_opportunity \<Rightarrow> bool \<Rightarrow> trade_execution_result \<times> event list" where
  "executeArbitrageTrade env opportunity isSimulation =
     (case tradePipeline env opportunity isSimulation of
        (Inr result, t) \<Rightarrow> (result, t)
      | (Inl e, t) \<Rightarrow>
          (\<lparr> r_success = False, r_txHash = None, r_profitUsd = None, r_gasCostUsd = None,
             r_error = Some e, r_executionTime = ee_endTime env - ee_startTime env \<rparr>,
           t @ [ActivityLog ''execution_failed'', CreateArbitrageTransaction ''0x0'' ''failed'']))"

text \<open>
  validateOpportunity (lines 728-753), with the configuration it reads and
  \<open>Date.now()\<close> as arguments.
\<close>

definition validateOpportunity ::
  "bot_config option \<Rightarrow> int \<Rightarrow> arbitrage_opportunity \<Rightarrow> bool" where
  "validateOpportunity config now opportunity =
     (let ageMs = now - timestamp opportunity
      in if ageMs > 30000 then False
         else if jlt (netProfitPercent opportunity)
                   (Fin (case config of
                           None \<Rightarrow> 15 / 100
                         | Some c \<Rightarrow> (case bc_minNetProfitPercent c of
                                        None \<Rightarrow> 15 / 100
                                      | Some m \<Rightarrow> m)))
         then False
         else True)"

section \<open>The formulas of the specification\<close>

text \<open>
  The comparator as the specification words it, over exact reals: the spread relative
  to the average price, the net profit after gas cost and a loan fee of five basis
  points of the notional, and the net profit relative to the notional.
\<close>

definition spec_grossSpreadPercent :: "real \<Rightarrow> real \<Rightarrow> real" where
  "spec_grossSpreadPercent price1 price2 = \<bar>price1 - price2\<bar> / ((price1 + price2) / 2) * 100"

definition spec_netProfitUsd :: "real \<Rightarrow> real \<Rightarrow> real \<Rightarrow> real \<Rightarrow> real" where
  "spec_netProfitUsd price1 price2 notional gasUsd =
     \<bar>price1 - price2\<bar> * notional - gasUsd - notional * (5 / 10000)"

definition spec_netProfitPercent :: "real \<Rightarrow> real \<Rightarrow> real" where
  "spec_netProfitPercent netUsd notional = netUsd / notional * 100"

section \<open>Example inputs\<close>

text \<open>
  Two venues quoting 1.000 and 1.012 for a loan of 10000, the default thresholds, one
  configured pair whose third venue fails; used to instantiate the theorems below.
\<close>

definition exampleQuoteA :: dex_quote where
  "exampleQuoteA =
     \<lparr> toAmount = Fin 10000000000, fromAmount = Fin 10000000000, dex = ''1inch'',
       fromToken = \<lparr> symbol = ''USDC'', decimals = 6 \<rparr>,
       toToken = \<lparr> symbol = ''USDT'', decimals = 6 \<rparr> \<rparr>"

definition exampleQuoteB :: dex_quote where
  "exampleQuoteB = exampleQuoteA \<lparr> toAmount := Fin 10120000000, dex := ''SushiSwap'' \<rparr>"

definition exampleStamp :: stamp where
  "exampleStamp = \<lparr> st_id_now = 1000, st_random = ''k3j9x0q2a'', st_timestamp = 1000 \<rparr>"

definition examplePairEnv :: pair_env where
  "examplePairEnv =
     \<lparr> pe_quote1 = Some exampleQuoteA,
       pe_base2 = Some exampleQuoteA, pe_rand2 = (7 / 15, 9 / 10, 9 / 10),
       pe_base3 = None, pe_rand3 = (0, 0, 0),
       pe_stamp = (\<lambda>i j. exampleStamp) \<rparr>"

definition exampleConfig :: scanner_config where
  "exampleConfig =
     \<lparr> minProfitPercent = 3 / 10, minNetProfitPercent = 15 / 100, minProfitUsd = 15 / 10,
       maxGasPriceGwei = 60, scanIntervalMs = 30000,
       tokenPairs = [\<lparr> pair_tokenIn = ''USDC'', pair_tokenOut = ''USDT'' \<rparr>],
       dexList = [''1inch'', ''QuickSwap'', ''Uniswap V3'', ''SushiSwap''] \<rparr>"

definition exampleBotConfig :: bot_config where
  "exampleBotConfig =
     \<lparr> bc_networkMode = ''testnet'', bc_privateKey = None, bc_minNetProfitPercent = Some (15 / 100),
       bc_flashLoanAmount = Some 10000, bc_flashLoanContract = None, bc_oneinchApiKey = None,
       bc_maxGasPriceGwei = Some 60, bc_enableRealTrading = Some False,
       bc_useSimulation = Some True, bc_telegramProfitThresholdUsd = Some 10 \<rparr>"

definition exampleScanEnv :: "real \<Rightarrow> int \<Rightarrow> scan_env" where
  "exampleScanEnv gasGwei now =
     \<lparr> se_gasPrice = Some gasGwei, se_botConfig = Some exampleBotConfig,
       se_pair = (\<lambda>k. examplePairEnv), se_now = now \<rparr>"

definition exampleId :: opportunity_id where
  "exampleId = \<lparr> id_tokenIn = ''USDC'', id_tokenOut = ''USDT'', id_now = 1000,
                 id_random = ''k3j9x0q2a'' \<rparr>"

definition exampleOpportunity :: arbitrage_opportunity where
  "exampleOpportunity = makeOpportunity ''USDC'' ''USDT'' 10000 30 exampleStamp exampleQuoteA exampleQuoteB"

text \<open>
  The stored net profit, loan fee and net percent of an opportunity are the values
  computed from its own prices, notional and gas cost.
\<close>

definition derivedFromInputs :: "arbitrage_opportunity \<Rightarrow> bool" where
  "derivedFromInputs opp =
     (let notional = Fin (real_of_int (flashLoanAmount opp))
      in estimatedProfitUsd opp =
           jsub (jsub (jmul (jsub (sellPrice opp) (buyPrice opp)) notional)
                      (estimatedGasCostUsd opp))
                (flashLoanFeeUsd opp) \<and>
         flashLoanFeeUsd opp = jmul notional (Fin flashLoanFeePercent) \<and>
         netProfitPercent opp = jmul (jdiv (estimatedProfitUsd opp) notional) (Fin 100))"



section \<open>Properties of traces and transaction ids\<close>

text \<open>The calls that reach the chain through the RPC provider or the flash loan module.\<close>

fun chainInteraction :: "event \<Rightarrow> bool" where
  "chainInteraction GetGasPrice = True"
| "chainInteraction (GetNativeBalance _ _) = True"
| "chainInteraction (GetCode _ _) = True"
| "chainInteraction (ExecuteFlashLoan _) = True"
| "chainInteraction _ = False"

text \<open>The requests sent to the quote and route service, in order.\<close>

fun quoteSourceRequests :: "event list \<Rightarrow> swap_request list" where
  "quoteSourceRequests [] = []"
| "quoteSourceRequests (BuildSwapTransaction r # t) = r # quoteSourceRequests t"
| "quoteSourceRequests (_ # t) = quoteSourceRequests t"

definition isHexDigit :: "char \<Rightarrow> bool" where
  "isHexDigit c = (c \<in> set ''0123456789abcdef'')"

text \<open>
  \<open>Math.random().toString(16)\<close> prints \<open>0\<close> or \<open>0.\<close> followed by hexadecimal
  digits; a placeholder transaction id is \<open>0x\<close> followed by hexadecimal digits.
\<close>

definition isRandomHex :: "string \<Rightarrow> bool" where
  "isRandomHex r = ((r = ''0'' \<or> take 2 r = ''0.'') \<and> list_all isHexDigit (drop 2 r))"

definition isPlaceholderTxId :: "string \<Rightarrow> bool" where
  "isPlaceholderTxId h = (take 2 h = ''0x'' \<and> list_all isHexDigit (drop 2 h))"

section \<open>Example inputs of the executor\<close>

text \<open>
  An attempt that starts 45 seconds after the example opportunity was found, with the
  stored example configuration, no key, and no route or chain service answering.
\<close>

definition exampleExecEnv :: "real \<Rightarrow> exec_env" where
  "exampleExecEnv gasGwei =
     \<lparr> ee_config = Some exampleBotConfig, ee_PRIVATE_KEY = None, ee_ARBITRAGE_CONTRACT = None,
       ee_walletAddress = (\<lambda>k. None), ee_nativeBalance = (\<lambda>a c. None),
       ee_gasPrice = Some gasGwei,
       ee_random1 = ''0.8f3a91c2b4d6e'', ee_random2 = ''0.1b7e05a9c3f2d'',
       ee_buySwap = (\<lambda>r. None), ee_sellSwap = (\<lambda>r. None), ee_isAddress = (\<lambda>a. False),
       ee_getCode = (\<lambda>a c. None), ee_flashLoan = (\<lambda>r. None),
       ee_startTime = 46000, ee_endTime = 46100 \<rparr>"

text \<open>
  A real-mode attempt: trading enabled, a route service that answers both legs, and a
  wallet library that derives one address from every key.
\<close>

definition exampleSwap :: swap_result where
  "exampleSwap =
     \<lparr> sw_toAmount = Fin 10119000000, sw_dex = ''1inch'',
       sw_tx = Some \<lparr> tx_to = Some ''0x1111111254EEB25477B68fb85Ed929f73A960582'',
                      tx_data = Some ''0x12aa3caf'' \<rparr> \<rparr>"

definition exampleRealConfig :: "string option \<Rightarrow> bot_config" where
  "exampleRealConfig key =
     exampleBotConfig \<lparr> bc_privateKey := key, bc_oneinchApiKey := Some ''api-key'',
                        bc_enableRealTrading := Some True, bc_useSimulation := Some False \<rparr>"

definition exampleRealEnv :: "string option \<Rightarrow> exec_env" where
  "exampleRealEnv key =
     (exampleExecEnv 30)
       \<lparr> ee_config := Some (exampleRealConfig key),
         ee_walletAddress := (\<lambda>k. Some ''0x3dCBc8f5de99AAD6CA1b97674C582C7bA099ef58''),
         ee_buySwap := (\<lambda>r. Some exampleSwap), ee_sellSwap := (\<lambda>r. Some exampleSwap) \<rparr>"

definition exampleKeyA :: string where
  "exampleKeyA = ''0x'' @ replicate 64 (CHR ''a'')"

definition exampleKeyB :: string where
  "exampleKeyB = ''0x'' @ replicate 64 (CHR ''b'')"

text \<open>An attempt whose stored key is three characters long.\<close>

definition exampleBadKeyEnv :: exec_env where
  "exampleBadKeyEnv =
     (exampleExecEnv 30) \<lparr> ee_config := Some (exampleBotConfig \<lparr> bc_privateKey := Some ''abc'' \<rparr>) \<rparr>"



section \<open>Facts about the scanner\<close>

lemma quotePairs_3: "quotePairs 3 = [(0,1),(0,2),(1,2)]"
  by (simp add: quotePairs_def upt_rec)

lemma set_map_filter:
  "y \<in> set (List.map_filter f xs) \<longleftrightarrow> (\<exists>x \<in> set xs. f x = Some y)"
  by (induction xs) (auto split: option.splits)

lemma length_dexQuotesOf: "length (dexQuotesOf pe) = 3"
  by (simp add: dexQuotesOf_def)

lemma comparePair_Some:
  "comparePair config tIn tOut loanAmount gasGwei st q1 q2 = Some opp \<longleftrightarrow>
     isProfitable config loanAmount gasGwei q1 q2 \<and>
     opp = makeOpportunity tIn tOut loanAmount gasGwei st q1 q2"
  by (auto simp: comparePair_def)

lemma compareQuotes_Some:
  "compareQuotes config tIn tOut loanAmount gasGwei st dexQuotes (i, j) = Some opp \<longleftrightarrow>
     (\<exists>q1 q2. dexQuotes ! i = Some q1 \<and> dexQuotes ! j = Some q2 \<and>
        comparePair config tIn tOut loanAmount gasGwei (st i j) q1 q2 = Some opp)"
  by (auto simp: compareQuotes_def split: option.splits)

text \<open>Where a new opportunity of a cycle comes from.\<close>

lemma newOpportunities_iff:
  "opp \<in> set (newOpportunitiesOf config env gasGwei) \<longleftrightarrow>
     (\<exists>k i j q1 q2. k < length (tokenPairs config) \<and> (i, j) \<in> set (quotePairs 3) \<and>
        dexQuotesOf (se_pair env k) ! i = Some q1 \<and>
        dexQuotesOf (se_pair env k) ! j = Some q2 \<and>
        comparePair config (pair_tokenIn (tokenPairs config ! k))
          (pair_tokenOut (tokenPairs config ! k)) (loanAmountOf (se_botConfig env)) gasGwei
          (pe_stamp (se_pair env k) i j) q1 q2 = Some opp)"
  (is "?L \<longleftrightarrow> ?R")
proof
  assume ?L
  then obtain k pair where kp: "(k, pair) \<in> set (enumerate 0 (tokenPairs config))"
    and m: "opp \<in> set (fst (scanTokenPair (se_botConfig env) (pair_tokenIn pair)
               (pair_tokenOut pair) config gasGwei (se_pair env k)))"
    by (auto simp: newOpportunitiesOf_def scanPairs_def)
  from kp have k: "k < length (tokenPairs config)" and p: "pair = tokenPairs config ! k"
    by (auto simp: in_set_enumerate_eq)
  from m obtain ij where ij: "ij \<in> set (quotePairs 3)"
    and c: "compareQuotes config (pair_tokenIn pair) (pair_tokenOut pair)
              (loanAmountOf (se_botConfig env)) gasGwei (pe_stamp (se_pair env k))
              (dexQuotesOf (se_pair env k)) ij = Some opp"
    by (auto simp: scanTokenPair_def Let_def set_map_filter length_dexQuotesOf)
  obtain i j where e: "ij = (i, j)" by (cases ij)
  from c obtain q1 q2 where "dexQuotesOf (se_pair env k) ! i = Some q1"
    "dexQuotesOf (se_pair env k) ! j = Some q2"
    "comparePair config (pair_tokenIn pair) (pair_tokenOut pair)
       (loanAmountOf (se_botConfig env)) gasGwei (pe_stamp (se_pair env k) i j) q1 q2 = Some opp"
    unfolding e compareQuotes_Some by blast
  with ij k show ?R unfolding e p by blast
next
  assume ?R
  then obtain k i j q1 q2 where k: "k < length (tokenPairs config)"
    and ij: "(i, j) \<in> set (quotePairs 3)"
    and q: "dexQuotesOf (se_pair env k) ! i = Some q1" "dexQuotesOf (se_pair env k) ! j = Some q2"
    and c: "comparePair config (pair_tokenIn (tokenPairs config ! k))
          (pair_tokenOut (tokenPairs config ! k)) (loanAmountOf (se_botConfig env)) gasGwei
          (pe_stamp (se_pair env k) i j) q1 q2 = Some opp"
    by blast
  have kp: "(k, tokenPairs config ! k) \<in> set (enumerate 0 (tokenPairs config))"
    using k by (simp add: in_set_enumerate_eq)
  have "compareQuotes config (pair_tokenIn (tokenPairs config ! k))
          (pair_tokenOut (tokenPairs config ! k))
              (loanAmountOf (se_botConfig env)) gasGwei (pe_stamp (se_pair env k))
              (dexQuotesOf (se_pair env k)) (i, j) = Some opp"
    using q c by (auto simp: compareQuotes_Some)
  then have "opp \<in> set (fst (scanTokenPair (se_botConfig env) (pair_tokenIn (tokenPairs config ! k))
               (pair_tokenOut (tokenPairs config ! k)) config gasGwei (se_pair env k)))"
    using ij by (auto simp: scanTokenPair_def Let_def set_map_filter length_dexQuotesOf)
  with kp show ?L
    by (force simp: newOpportunitiesOf_def scanPairs_def)
qed


lemma values_update:
  "snd ` set (AList.update k v al) \<subseteq> insert v (snd ` set al)"
  by (induction al) auto

lemma values_insertAll:
  "set (getOpportunities (insertAll news reg)) \<subseteq> set (getOpportunities reg) \<union> set news"
  unfolding insertAll_def getOpportunities_def
proof (induction news arbitrary: reg)
  case Nil then show ?case by simp
next
  case (Cons a news)
  have "set (map snd (AList.update (opp_id a) a reg)) \<subseteq> insert a (set (map snd reg))"
    using values_update [of "opp_id a" a reg] by simp
  with Cons.IH [of "AList.update (opp_id a) a reg"] show ?case by auto
qed

lemma scan_passed:
  "se_gasPrice env = Some gasGwei \<Longrightarrow> \<not> gasGwei > maxGasPriceGwei config \<Longrightarrow>
   fst (scan config env reg) =
     evictStale (se_now env) (insertAll (newOpportunitiesOf config env gasGwei) reg)"
  by (simp add: scan_def Let_def)

lemma scan_skipped:
  "se_gasPrice env = Some gasGwei \<Longrightarrow> gasGwei > maxGasPriceGwei config \<Longrightarrow>
   scan config env reg =
     (reg, [ActivityLog ''1_preparation'', GetGasPrice, ActivityLog ''1_gas_check_failed''])"
  by (simp add: scan_def)

lemma example_dexQuotes:
  "dexQuotesOf examplePairEnv = [Some exampleQuoteA, Some exampleQuoteB, None]"
  by (simp add: dexQuotesOf_def examplePairEnv_def simulateSecondDexQuote_def
      simulateThirdDexQuote_def exampleQuoteA_def exampleQuoteB_def)

lemma example_prices:
  "price exampleQuoteA = Fin 1" "price exampleQuoteB = Fin (1012 / 1000)"
  by (simp_all add: price_def exampleQuoteA_def exampleQuoteB_def)

lemma example_gross: "grossPercent exampleQuoteA exampleQuoteB = Fin (1200 / 1006)"
  by (simp add: grossPercent_def priceDiff_def avgPrice_def jsub_def example_prices)

lemma example_gas30: "gasCostUsd 30 = Fin (105 / 10000)"
  by (simp add: gasCostUsd_def gasCostEth_def gasCostWei_def estimatedGas_def maticPriceUsd_def)

lemma example_gas_scenario: "gasCostUsd 8571 = Fin (299985 / 100000)"
  by (simp add: gasCostUsd_def gasCostEth_def gasCostWei_def estimatedGas_def maticPriceUsd_def)

lemma example_net30:
  "netProfitUsd 10000 30 exampleQuoteA exampleQuoteB = Fin (1149895 / 10000)"
  by (simp add: netProfitUsd_def grossProfitUsd_def priceDiff_def jsub_def example_prices
      example_gas30 loanFeeUsd_def flashLoanFeePercent_def)

lemma quotePairs_3_iff: "(i, j) \<in> set (quotePairs 3) \<longleftrightarrow> i < j \<and> j < 3"
  by (auto simp: quotePairs_3)

lemma loanAmountOf_nonzero: "loanAmountOf botConfig \<noteq> 0"
  by (simp add: loanAmountOf_def split: option.splits)

lemma isProfitable_fields:
  "isProfitable config loanAmount gasGwei q1 q2 \<longleftrightarrow>
     (let opp = makeOpportunity tIn tOut loanAmount gasGwei st q1 q2
      in jge (profitPercent opp) (Fin (minProfitPercent config)) \<and>
         jge (netProfitPercent opp) (Fin (minNetProfitPercent config)) \<and>
         jge (estimatedProfitUsd opp) (Fin (minProfitUsd config)))"
  by (simp add: isProfitable_def makeOpportunity_def)

lemma example_profitable: "isProfitable exampleConfig 10000 30 exampleQuoteA exampleQuoteB"
  by (simp add: isProfitable_def example_gross example_net30 netPercent_def exampleConfig_def)

lemma example_scanTokenPair:
  "fst (scanTokenPair (Some exampleBotConfig) ''USDC'' ''USDT'' exampleConfig 30 examplePairEnv)
     = [exampleOpportunity]"
proof -
  have st: "pe_stamp examplePairEnv = (\<lambda>i j. exampleStamp)"
    by (simp add: examplePairEnv_def)
  have loan: "loanAmountOf (Some exampleBotConfig) = 10000"
    by (simp add: loanAmountOf_def exampleBotConfig_def)
  have "fst (scanTokenPair (Some exampleBotConfig) ''USDC'' ''USDT'' exampleConfig 30 examplePairEnv)
      = List.map_filter (compareQuotes exampleConfig ''USDC'' ''USDT'' 10000 30
          (\<lambda>i j. exampleStamp) (dexQuotesOf examplePairEnv)) [(0, 1), (0, 2), (1, 2)]"
    by (simp add: scanTokenPair_def Let_def length_dexQuotesOf quotePairs_3 st loan)
  then show ?thesis
    by (simp add: example_dexQuotes compareQuotes_def
        comparePair_def example_profitable exampleOpportunity_def)
qed

lemma example_newOpportunities:
  "newOpportunitiesOf exampleConfig (exampleScanEnv 30 now) 30 = [exampleOpportunity]"
proof -
  have "tokenPairs exampleConfig = [\<lparr> pair_tokenIn = ''USDC'', pair_tokenOut = ''USDT'' \<rparr>]"
    by (simp add: exampleConfig_def)
  then show ?thesis
    by (simp add: newOpportunitiesOf_def scanPairs_def enumerate_eq_zip exampleScanEnv_def
        example_scanTokenPair)
qed

lemma isProfitable_finite:
  assumes "isProfitable config loanAmount gasGwei q1 q2"
  shows "\<exists>a b. price q1 = Fin a \<and> price q2 = Fin b"
proof -
  have g: "jge (grossPercent q1 q2) (Fin (minProfitPercent config))"
    using assms by (simp add: isProfitable_def)
  show ?thesis
  proof (cases "price q1")
    case (Fin a)
    show ?thesis
    proof (cases "price q2")
      case (Fin b) with \<open>price q1 = Fin a\<close> show ?thesis by simp
    qed (use g Fin in \<open>simp_all add: grossPercent_def priceDiff_def avgPrice_def jsub_def\<close>)
  next
    case PInf
    then show ?thesis using g
      by (cases "price q2") (simp_all add: grossPercent_def priceDiff_def avgPrice_def jsub_def)
  next
    case NInf
    then show ?thesis using g
      by (cases "price q2") (simp_all add: grossPercent_def priceDiff_def avgPrice_def jsub_def)
  next
    case NaN
    then show ?thesis using g
      by (simp add: grossPercent_def priceDiff_def avgPrice_def jsub_def)
  qed
qed

lemma example_gas_scenario_net:
  "netProfitUsd 10000 8571 exampleQuoteA exampleQuoteB = Fin (11200015 / 100000)"
  by (simp add: netProfitUsd_def grossProfitUsd_def priceDiff_def jsub_def example_prices
      example_gas_scenario loanFeeUsd_def flashLoanFeePercent_def)

lemma example_scenario_profitable:
  "isProfitable exampleConfig 10000 8571 exampleQuoteA exampleQuoteB"
  by (simp add: isProfitable_def example_gross example_gas_scenario_net netPercent_def
      exampleConfig_def)

lemma makeOpportunity_derived:
  assumes "isProfitable config loanAmount gasGwei q1 q2"
  shows "derivedFromInputs (makeOpportunity tIn tOut loanAmount gasGwei st q1 q2)"
proof -
  obtain a b where p: "price q1 = Fin a" "price q2 = Fin b"
    using assms isProfitable_finite by blast
  have "jsub (jmax (Fin a) (Fin b)) (jmin (Fin a) (Fin b)) = jabs (jsub (Fin a) (Fin b))"
    by (simp add: jsub_def)
  then show ?thesis
    by (simp add: derivedFromInputs_def makeOpportunity_def netPercent_def netProfitUsd_def
        grossProfitUsd_def priceDiff_def loanFeeUsd_def p)
qed

lemma newOpportunities_derived:
  "opp \<in> set (newOpportunitiesOf config env gasGwei) \<Longrightarrow> derivedFromInputs opp"
  unfolding newOpportunities_iff comparePair_Some
  using makeOpportunity_derived by blast

lemma getOpportunities_evictStale:
  "set (getOpportunities (evictStale now reg)) =
     {opp \<in> set (getOpportunities reg). now - timestamp opp \<le> 60000}"
  by (force simp: getOpportunities_def evictStale_def isStale_def)

lemma scan_registry_cases:
  "fst (scan config env reg) = reg \<or>
   (\<exists>gasGwei. fst (scan config env reg) =
      evictStale (se_now env) (insertAll (newOpportunitiesOf config env gasGwei) reg))"
  by (auto simp: scan_def Let_def split: option.splits)

lemma scan_registry_subset:
  "set (getOpportunities (fst (scan config env reg)))
     \<subseteq> set (getOpportunities reg) \<union> (\<Union>gasGwei. set (newOpportunitiesOf config env gasGwei))"
proof (rule disjE [OF scan_registry_cases [of config env reg]])
  assume "fst (scan config env reg) = reg"
  then show ?thesis by auto
next
  assume "\<exists>gasGwei. fst (scan config env reg) =
      evictStale (se_now env) (insertAll (newOpportunitiesOf config env gasGwei) reg)"
  then obtain gasGwei where s: "fst (scan config env reg) =
      evictStale (se_now env) (insertAll (newOpportunitiesOf config env gasGwei) reg)"
    by blast
  have "set (getOpportunities (fst (scan config env reg)))
      \<subseteq> set (getOpportunities (insertAll (newOpportunitiesOf config env gasGwei) reg))"
    unfolding s getOpportunities_evictStale by blast
  also have "\<dots> \<subseteq> set (getOpportunities reg) \<union> set (newOpportunitiesOf config env gasGwei)"
    by (rule values_insertAll)
  finally show ?thesis by blast
qed

lemma map_of_insertAll:
  "map_of (insertAll news reg) = fold (\<lambda>opp m. m(opp_id opp \<mapsto> opp)) news (map_of reg)"
  unfolding insertAll_def
  by (induction news arbitrary: reg) (simp_all add: update_conv')

lemma fold_upd_unique:
  assumes "opp \<in> set news \<or> m (opp_id opp) = Some opp"
    and "\<forall>other \<in> set news. opp_id other = opp_id opp \<longrightarrow> other = opp"
  shows "fold (\<lambda>opp m. m(opp_id opp \<mapsto> opp)) news m (opp_id opp) = Some opp"
  using assms
proof (induction news arbitrary: m)
  case Nil
  then show ?case by simp
next
  case (Cons a news)
  have "opp \<in> set news \<or> (m(opp_id a \<mapsto> a)) (opp_id opp) = Some opp"
    using Cons.prems by auto
  moreover have "\<forall>other \<in> set news. opp_id other = opp_id opp \<longrightarrow> other = opp"
    using Cons.prems by simp
  ultimately show ?case
    using Cons.IH [of "m(opp_id a \<mapsto> a)"] by simp
qed

lemma insertAll_keeps_new:
  assumes "opp \<in> set news"
    and "\<forall>other \<in> set news. opp_id other = opp_id opp \<longrightarrow> other = opp"
  shows "opp \<in> set (getOpportunities (insertAll news reg))"
proof -
  have "map_of (insertAll news reg) (opp_id opp) = Some opp"
    using assms by (simp add: map_of_insertAll fold_upd_unique)
  then have "(opp_id opp, opp) \<in> set (insertAll news reg)"
    by (rule map_of_SomeD)
  then show ?thesis
    by (force simp: getOpportunities_def)
qed

lemma example_scan_registry:
  "fst (scan exampleConfig (exampleScanEnv 30 now) reg) =
     evictStale now (insertAll [exampleOpportunity] reg)"
proof -
  have "se_gasPrice (exampleScanEnv 30 now) = Some 30" "se_now (exampleScanEnv 30 now) = now"
    by (simp_all add: exampleScanEnv_def)
  moreover have "\<not> 30 > maxGasPriceGwei exampleConfig"
    by (simp add: exampleConfig_def)
  ultimately show ?thesis
    using scan_passed [of "exampleScanEnv 30 now" 30 exampleConfig reg]
    by (simp add: example_newOpportunities)
qed

lemma example_opportunity_fields:
  "timestamp exampleOpportunity = 1000" "opp_id exampleOpportunity = exampleId"
  "isValid exampleOpportunity"
  by (simp_all add: exampleOpportunity_def makeOpportunity_def exampleStamp_def exampleId_def)

lemma example_scan_trace:
  "snd (scan exampleConfig (exampleScanEnv 30 2000) []) =
     [ActivityLog ''1_preparation'', GetGasPrice, ActivityLog ''2_dex_connection'',
      ActivityLog ''3_pair_analysis'',
      GetQuote ''USDC'' ''USDT'' 10000000000, GetQuote ''USDC'' ''USDT'' 10000000000,
      GetQuote ''USDC'' ''USDT'' 10000000000,
      ActivityLog ''4_results'', ActivityLog ''auto_execute'', ExecuteTrade exampleId True,
      UpdateBotStatus 1]"
proof -
  have p: "tokenPairs exampleConfig = [\<lparr> pair_tokenIn = ''USDC'', pair_tokenOut = ''USDT'' \<rparr>]"
    by (simp add: exampleConfig_def)
  have q: "snd (scanTokenPair (Some exampleBotConfig) ''USDC'' ''USDT'' exampleConfig 30
                 examplePairEnv) =
      [GetQuote ''USDC'' ''USDT'' 10000000000, GetQuote ''USDC'' ''USDT'' 10000000000,
       GetQuote ''USDC'' ''USDT'' 10000000000]"
    by (simp add: scanTokenPair_def Let_def loanAmountOf_def exampleBotConfig_def)
  have r: "map snd (scanPairs exampleConfig (exampleScanEnv 30 2000) 30) =
      [[GetQuote ''USDC'' ''USDT'' 10000000000, GetQuote ''USDC'' ''USDT'' 10000000000,
        GetQuote ''USDC'' ''USDT'' 10000000000]]"
    by (simp add: scanPairs_def p enumerate_eq_zip exampleScanEnv_def q)
  have g: "se_gasPrice (exampleScanEnv 30 2000) = Some 30"
    "se_botConfig (exampleScanEnv 30 2000) = Some exampleBotConfig"
    "se_now (exampleScanEnv 30 2000) = 2000"
    by (simp_all add: exampleScanEnv_def)
  have m: "\<not> 30 > maxGasPriceGwei exampleConfig"
    by (simp add: exampleConfig_def)
  have i: "isSimulationOf (Some exampleBotConfig)"
    by (simp add: isSimulationOf_def exampleBotConfig_def)
  show ?thesis
    using m
    by (simp add: scan_def Let_def g r example_newOpportunities dispatchEvents_def i
        example_opportunity_fields insertAll_def evictStale_def isStale_def)
qed

lemma example_compareQuotes:
  "compareQuotes exampleConfig ''USDC'' ''USDT'' 10000 30 (pe_stamp examplePairEnv)
     (dexQuotesOf examplePairEnv) (0, 1) = Some exampleOpportunity"
proof -
  have st: "pe_stamp examplePairEnv = (\<lambda>i j. exampleStamp)"
    by (simp add: examplePairEnv_def)
  show ?thesis
    by (simp add: compareQuotes_def example_dexQuotes comparePair_def example_profitable st
        exampleOpportunity_def)
qed

section \<open>Facts about the executor\<close>

lemma andThen_Inl [simp]: "andThen (Inl e, t) f = (Inl e, t)"
  by (simp add: andThen_def)

lemma andThen_Inr [simp]: "andThen (Inr a, t) f = (fst (f a), t @ snd (f a))"
  by (simp add: andThen_def split: prod.splits)

lemma example_exec_fields:
  "ee_config (exampleExecEnv g) = Some exampleBotConfig"
  "ee_PRIVATE_KEY (exampleExecEnv g) = None"
  "ee_gasPrice (exampleExecEnv g) = Some g"
  "ee_startTime (exampleExecEnv g) = 46000"
  "ee_endTime (exampleExecEnv g) = 46100"
  by (simp_all add: exampleExecEnv_def)

lemma example_checkConfigAndKey:
  "checkConfigAndKey (exampleExecEnv g) True =
     (Inr (exampleBotConfig, None), [ActivityLog ''2_key_validation''])"
  by (simp add: checkConfigAndKey_def example_exec_fields resolvePrivateKey_def orElse_def
      truthy_def exampleBotConfig_def)

lemma example_simulation_30:
  "fst (executeArbitrageTrade (exampleExecEnv 30) exampleOpportunity True) =
     \<lparr> r_success = True, r_txHash = Some ''0x8f3a91c2b4d6e1b7e05a9c3f2d'',
       r_profitUsd = Some (Fin (1149895 / 10000)), r_gasCostUsd = Some (Fin (105 / 10000)),
       r_error = None, r_executionTime = 100 \<rparr>"
proof -
  have m: "maxGasOf exampleBotConfig = 60"
    by (simp add: maxGasOf_def exampleBotConfig_def)
  have f: "estimatedProfitUsd exampleOpportunity = Fin (1149895 / 10000)"
    "estimatedGasCostUsd exampleOpportunity = Fin (105 / 10000)"
    by (simp_all add: exampleOpportunity_def makeOpportunity_def example_net30 example_gas30)
  have h: "randomTxHash (exampleExecEnv 30) = ''0x8f3a91c2b4d6e1b7e05a9c3f2d''"
    by (simp add: randomTxHash_def exampleExecEnv_def)
  show ?thesis
    by (simp add: executeArbitrageTrade_def tradePipeline_def example_checkConfigAndKey
        checkBalance_def checkGas_def example_exec_fields m simulateTrade_def f h Let_def)
qed

lemma example_simulation_80:
  "fst (executeArbitrageTrade (exampleExecEnv 80) exampleOpportunity True) =
     \<lparr> r_success = False, r_txHash = None, r_profitUsd = None, r_gasCostUsd = None,
       r_error = Some GasPriceTooHigh, r_executionTime = 100 \<rparr>"
proof -
  have m: "maxGasOf exampleBotConfig = 60"
    by (simp add: maxGasOf_def exampleBotConfig_def)
  show ?thesis
    by (simp add: executeArbitrageTrade_def tradePipeline_def example_checkConfigAndKey
        checkBalance_def checkGas_def example_exec_fields m)
qed

lemma simulation_trace_no_flash_loan:
  "ExecuteFlashLoan request \<notin> set (snd (executeArbitrageTrade env opportunity True))"
  by (auto simp: executeArbitrageTrade_def tradePipeline_def andThen_def checkConfigAndKey_def
      checkBalance_def checkGas_def simulateTrade_def Let_def
      split: option.splits prod.splits sum.splits if_splits)

lemma placeholder_id:
  "isRandomHex r1 \<Longrightarrow> isRandomHex r2 \<Longrightarrow> isPlaceholderTxId (''0x'' @ drop 2 r1 @ drop 2 r2)"
  by (simp add: isRandomHex_def isPlaceholderTxId_def)

lemma simulation_success:
  assumes "ee_config env = Some config"
    and "\<forall>key. resolvePrivateKey config (ee_PRIVATE_KEY env) = Some key \<and> key \<noteq> []
           \<longrightarrow> length key = 66"
    and "ee_gasPrice env = Some gasGwei" and "\<not> gasGwei > maxGasOf config"
  shows "fst (executeArbitrageTrade env opportunity True) =
           \<lparr> r_success = True, r_txHash = Some (randomTxHash env),
             r_profitUsd = Some (estimatedProfitUsd opportunity),
             r_gasCostUsd = Some (estimatedGasCostUsd opportunity),
             r_error = None, r_executionTime = ee_endTime env - ee_startTime env \<rparr>"
proof -
  have "checkConfigAndKey env True =
      (Inr (config, resolvePrivateKey config (ee_PRIVATE_KEY env)), [ActivityLog ''2_key_validation''])"
    using assms(1,2)
    by (cases "resolvePrivateKey config (ee_PRIVATE_KEY env)")
       (auto simp: checkConfigAndKey_def truthy_def Let_def)
  moreover have "checkGas env config = (Inr (), [GetGasPrice, ActivityLog ''4_gas_check''])"
    using assms(3,4) by (simp add: checkGas_def)
  ultimately show ?thesis
    by (simp add: executeArbitrageTrade_def tradePipeline_def simulateTrade_def Let_def)
qed

lemma example_bad_key:
  "ee_config exampleBadKeyEnv = Some (exampleBotConfig \<lparr> bc_privateKey := Some ''abc'' \<rparr>)"
  "resolvePrivateKey (exampleBotConfig \<lparr> bc_privateKey := Some ''abc'' \<rparr>)
     (ee_PRIVATE_KEY exampleBadKeyEnv) = Some ''0xabc''"
  "bc_enableRealTrading (exampleBotConfig \<lparr> bc_privateKey := Some ''abc'' \<rparr>) = Some False"
  by (simp_all add: exampleBadKeyEnv_def exampleExecEnv_def resolvePrivateKey_def orElse_def
      truthy_def trim_def isSpace_def exampleBotConfig_def)

lemma quoteSourceRequests_append:
  "quoteSourceRequests (a @ b) = quoteSourceRequests a @ quoteSourceRequests b"
  by (induction a rule: quoteSourceRequests.induct) simp_all

lemma checkBalance_no_requests:
  "quoteSourceRequests (checkBalance env config privateKey isSimulation) = []"
  by (simp add: checkBalance_def split: option.splits)

lemma checkGas_no_requests: "quoteSourceRequests (snd (checkGas env config)) = []"
  by (simp add: checkGas_def split: option.splits)

lemma checkConfigAndKey_no_requests:
  "quoteSourceRequests (snd (checkConfigAndKey env isSimulation)) = []"
  by (simp add: checkConfigAndKey_def Let_def split: option.splits)

lemma flashLoanStage_no_requests:
  "quoteSourceRequests (snd (flashLoanStage env config privateKey opportunity legs)) = []"
  by (simp add: flashLoanStage_def Let_def quoteSourceRequests_append
      split: option.splits prod.splits)

lemma andThen_requests:
  "quoteSourceRequests (snd (andThen m f)) =
     quoteSourceRequests (snd m) @
     (case fst m of Inl e \<Rightarrow> [] | Inr a \<Rightarrow> quoteSourceRequests (snd (f a)))"
  by (cases m; cases "fst m") (auto simp: andThen_def quoteSourceRequests_append split: prod.splits)

text \<open>The route requests of a real-mode attempt are those of its route-building stage.\<close>

lemma real_mode_requests:
  "quoteSourceRequests (snd (executeArbitrageTrade env opportunity False)) =
     (case checkConfigAndKey env False of
        (Inl e, t) \<Rightarrow> []
      | (Inr (config, privateKey), t) \<Rightarrow>
          (case checkGas env config of
             (Inl e, t') \<Rightarrow> []
           | (Inr u, t') \<Rightarrow> quoteSourceRequests (snd (buildSwaps env config privateKey opportunity))))"
proof -
  have "quoteSourceRequests (snd (executeArbitrageTrade env opportunity False)) =
      quoteSourceRequests (snd (tradePipeline env opportunity False))"
    by (simp add: executeArbitrageTrade_def quoteSourceRequests_append
        split: prod.splits sum.splits)
  also have "\<dots> = (case checkConfigAndKey env False of
        (Inl e, t) \<Rightarrow> []
      | (Inr (config, privateKey), t) \<Rightarrow>
          (case checkGas env config of
             (Inl e, t') \<Rightarrow> []
           | (Inr u, t') \<Rightarrow> quoteSourceRequests (snd (buildSwaps env config privateKey opportunity))))"
  proof (cases "checkConfigAndKey env False")
    case (Pair r t)
    have t: "quoteSourceRequests t = []"
      using checkConfigAndKey_no_requests [of env False] Pair by simp
    show ?thesis
    proof (cases r)
      case (Inl e)
      then show ?thesis
        using Pair t by (simp add: tradePipeline_def)
    next
      case (Inr cp)
      obtain config privateKey where cp: "cp = (config, privateKey)" by (cases cp)
      obtain g t' where g: "checkGas env config = (g, t')" by (cases "checkGas env config")
      have t': "quoteSourceRequests t' = []"
        using checkGas_no_requests [of env config] g by simp
      show ?thesis
      proof (cases g)
        case (Inl e)
        then show ?thesis
          using Pair Inr cp g t t'
          by (simp add: tradePipeline_def quoteSourceRequests_append checkBalance_no_requests)
      next
        case (Inr u)
        then show ?thesis
          using Pair \<open>r = Inr cp\<close> cp g t t'
          by (simp add: tradePipeline_def quoteSourceRequests_append checkBalance_no_requests
              andThen_requests flashLoanStage_no_requests split: sum.splits)
      qed
    qed
  qed
  finally show ?thesis .
qed

lemma buildSwaps_requests_from:
  assumes "r \<in> set (quoteSourceRequests (snd (buildSwaps env config (Some key) opportunity)))"
  shows "ee_walletAddress env key = Some (sr_from r)"
  using assms
  by (auto simp: buildSwaps_def Let_def buyRequest_def sellRequest_def
      split: if_splits option.splits)

lemma buildSwaps_key_independent:
  assumes "bc_oneinchApiKey config = bc_oneinchApiKey config'"
    and "ee_walletAddress env key = ee_walletAddress env' key'"
    and "ee_buySwap env = ee_buySwap env'" and "ee_sellSwap env = ee_sellSwap env'"
    and "key \<noteq> []" and "key' \<noteq> []"
  shows "buildSwaps env config (Some key) opportunity = buildSwaps env' config' (Some key') opportunity"
  using assms by (simp add: buildSwaps_def truthy_def Let_def cong: option.case_cong)

lemma example_real_requests:
  "quoteSourceRequests (snd (executeArbitrageTrade (exampleRealEnv (Some exampleKeyA))
                               exampleOpportunity False)) =
     [\<lparr> sr_src = ''USDC'', sr_dst = ''USDT'', sr_amount = Fin 10000000000,
        sr_from = ''0x3dCBc8f5de99AAD6CA1b97674C582C7bA099ef58'', sr_slippage = 1,
        sr_disableEstimate = False, sr_allowPartialFill = False \<rparr>,
      \<lparr> sr_src = ''USDT'', sr_dst = ''USDC'', sr_amount = Fin 10119000000,
        sr_from = ''0x3dCBc8f5de99AAD6CA1b97674C582C7bA099ef58'', sr_slippage = 1,
        sr_disableEstimate = False, sr_allowPartialFill = False \<rparr>]"
proof -
  have k: "resolvePrivateKey (exampleRealConfig (Some exampleKeyA)) None = Some exampleKeyA"
    by (simp add: resolvePrivateKey_def exampleRealConfig_def orElse_def truthy_def trim_def
        isSpace_def exampleKeyA_def)
  have l: "length exampleKeyA = 66" "exampleKeyA \<noteq> []"
    by (simp_all add: exampleKeyA_def)
  have c: "checkConfigAndKey (exampleRealEnv (Some exampleKeyA)) False =
      (Inr (exampleRealConfig (Some exampleKeyA), Some exampleKeyA),
       [ActivityLog ''2_key_validation''])"
    using k l
    by (simp add: checkConfigAndKey_def exampleRealEnv_def exampleExecEnv_def truthy_def Let_def
        exampleRealConfig_def)
  have g: "checkGas (exampleRealEnv (Some exampleKeyA)) (exampleRealConfig (Some exampleKeyA))
      = (Inr (), [GetGasPrice, ActivityLog ''4_gas_check''])"
    by (simp add: checkGas_def exampleRealEnv_def exampleExecEnv_def maxGasOf_def
        exampleRealConfig_def exampleBotConfig_def)
  have o: "address (tokenIn exampleOpportunity) = ''USDC''"
    "address (tokenOut exampleOpportunity) = ''USDT''"
    "flashLoanAmount exampleOpportunity = 10000" "tdecimals (tokenIn exampleOpportunity) = 6"
    by (simp_all add: exampleOpportunity_def makeOpportunity_def exampleQuoteA_def)
  have r: "quoteSourceRequests (snd (executeArbitrageTrade (exampleRealEnv (Some exampleKeyA))
                               exampleOpportunity False)) =
      quoteSourceRequests (snd (buildSwaps (exampleRealEnv (Some exampleKeyA))
        (exampleRealConfig (Some exampleKeyA)) (Some exampleKeyA) exampleOpportunity))"
    by (simp add: real_mode_requests c g)
  show ?thesis
    unfolding r using l
    by (simp add: buildSwaps_def exampleRealEnv_def exampleExecEnv_def
        exampleRealConfig_def exampleBotConfig_def truthy_def trim_def isSpace_def Let_def
        buyRequest_def sellRequest_def exampleSwap_def o)
qed

section \<open>The claims\<close>



text \<open>
  C2. The claim asks for a freshness re-check at the start of every execution attempt.
  executeArbitrageTrade logs its validation step and goes on; validateOpportunity is
  never called. An attempt that starts 45 seconds after the opportunity was found, which
  validateOpportunity rejects, runs to a successful simulated trade.
\<close>

theorem stale_opportunity_still_executed:
  "ee_startTime (exampleExecEnv 30) - timestamp exampleOpportunity = 45000 \<and>
   validateOpportunity (ee_config (exampleExecEnv 30)) (ee_startTime (exampleExecEnv 30))
     exampleOpportunity = False \<and>
   r_success (fst (executeArbitrageTrade (exampleExecEnv 30) exampleOpportunity True)) = True"
  by (simp add: example_simulation_30 validateOpportunity_def example_exec_fields
      example_opportunity_fields)

text \<open>
  C3 (amended). An execution attempt in simulation mode never calls the flash loan of
  the chain collaborator. When the configuration exists, a key that is present has 66
  characters after normalization, and the gas price is read and does not exceed the
  ceiling, the attempt returns \<open>success = true\<close> with a placeholder transaction id:
  \<open>0x\<close> followed by the digits of two random hexadecimal fractions.
\<close>

theorem simulation_never_calls_flash_loan:
  "(\<forall>request. ExecuteFlashLoan request \<notin> set (snd (executeArbitrageTrade env opportunity True))) \<and>
   (ee_config env = Some config \<and>
    (\<forall>key. resolvePrivateKey config (ee_PRIVATE_KEY env) = Some key \<and> key \<noteq> []
       \<longrightarrow> length key = 66) \<and>
    ee_gasPrice env = Some gasGwei \<and> \<not> gasGwei > maxGasOf config \<longrightarrow>
      r_success (fst (executeArbitrageTrade env opportunity True)) \<and>
      r_error (fst (executeArbitrageTrade env opportunity True)) = None \<and>
      r_txHash (fst (executeArbitrageTrade env opportunity True))
        = Some (''0x'' @ drop 2 (ee_random1 env) @ drop 2 (ee_random2 env)) \<and>
      (isRandomHex (ee_random1 env) \<and> isRandomHex (ee_random2 env) \<longrightarrow>
         isPlaceholderTxId (''0x'' @ drop 2 (ee_random1 env) @ drop 2 (ee_random2 env))))"
proof (intro conjI allI impI)
  fix request
  show "ExecuteFlashLoan request \<notin> set (snd (executeArbitrageTrade env opportunity True))"
    by (rule simulation_trace_no_flash_loan)
next
  assume a: "ee_config env = Some config \<and>
    (\<forall>key. resolvePrivateKey config (ee_PRIVATE_KEY env) = Some key \<and> key \<noteq> []
       \<longrightarrow> length key = 66) \<and>
    ee_gasPrice env = Some gasGwei \<and> \<not> gasGwei > maxGasOf config"
  then have r: "fst (executeArbitrageTrade env opportunity True) =
           \<lparr> r_success = True, r_txHash = Some (randomTxHash env),
             r_profitUsd = Some (estimatedProfitUsd opportunity),
             r_gasCostUsd = Some (estimatedGasCostUsd opportunity),
             r_error = None, r_executionTime = ee_endTime env - ee_startTime env \<rparr>"
    using simulation_success [of env config gasGwei opportunity] by blast
  show "r_success (fst (executeArbitrageTrade env opportunity True))" by (simp add: r)
  show "r_error (fst (executeArbitrageTrade env opportunity True)) = None" by (simp add: r)
  show "r_txHash (fst (executeArbitrageTrade env opportunity True))
        = Some (''0x'' @ drop 2 (ee_random1 env) @ drop 2 (ee_random2 env))"
    by (simp add: r randomTxHash_def)
  show "isPlaceholderTxId (''0x'' @ drop 2 (ee_random1 env) @ drop 2 (ee_random2 env))"
    if "isRandomHex (ee_random1 env) \<and> isRandomHex (ee_random2 env)"
    using that placeholder_id by blast
qed

theorem simulation_never_calls_flash_loan_witness:
  "r_success (fst (executeArbitrageTrade (exampleExecEnv 30) exampleOpportunity True)) \<and>
   r_txHash (fst (executeArbitrageTrade (exampleExecEnv 30) exampleOpportunity True))
     = Some ''0x8f3a91c2b4d6e1b7e05a9c3f2d'' \<and>
   isPlaceholderTxId ''0x8f3a91c2b4d6e1b7e05a9c3f2d''"
proof -
  have k: "resolvePrivateKey exampleBotConfig None = None"
    by (simp add: resolvePrivateKey_def orElse_def truthy_def exampleBotConfig_def)
  have m: "\<not> 30 > maxGasOf exampleBotConfig"
    by (simp add: maxGasOf_def exampleBotConfig_def)
  have r: "ee_random1 (exampleExecEnv 30) = ''0.8f3a91c2b4d6e''"
    "ee_random2 (exampleExecEnv 30) = ''0.1b7e05a9c3f2d''"
    by (simp_all add: exampleExecEnv_def)
  have h: "isRandomHex ''0.8f3a91c2b4d6e''" "isRandomHex ''0.1b7e05a9c3f2d''"
    by (simp_all add: isRandomHex_def isHexDigit_def)
  show ?thesis
    using simulation_never_calls_flash_loan [of "exampleExecEnv 30" exampleOpportunity
        exampleBotConfig 30] k m h
    by (simp add: example_exec_fields r)
qed

text \<open>
  A simulation-mode attempt at a gas price of 80 Gwei with a ceiling of 60: the result
  has \<open>success = false\<close>.
\<close>

theorem simulation_always_succeeds_counterexample:
  "r_success (fst (executeArbitrageTrade (exampleExecEnv 80) exampleOpportunity True)) = False \<and>
   r_error (fst (executeArbitrageTrade (exampleExecEnv 80) exampleOpportunity True))
     = Some GasPriceTooHigh"
  by (simp add: example_simulation_80)

text \<open>
  C4. The claim asks that an opportunity handed to an execution attempt is marked
  invalid, so that it is never executed twice. The validity flag is set when the
  opportunity is built and no code clears or reads it. A cycle finds the example
  opportunity and hands it to the executor, where the attempt succeeds; afterwards the
  registry still lists it with the flag set, the manual execution route finds it under
  its id, and the second attempt on the same opportunity succeeds as well.
\<close>

theorem consumed_opportunity_executed_again:
  "ExecuteTrade exampleId True \<in> set (snd (scan exampleConfig (exampleScanEnv 30 2000) [])) \<and>
   r_success (fst (executeArbitrageTrade
                     ((exampleExecEnv 30) \<lparr> ee_startTime := 1500, ee_endTime := 1600 \<rparr>)
                     exampleOpportunity True)) = True \<and>
   map isValid (getOpportunities (fst (scan exampleConfig (exampleScanEnv 30 2000) []))) = [True] \<and>
   manualExecute (fst (scan exampleConfig (exampleScanEnv 30 2000) [])) exampleId
     = Some exampleOpportunity \<and>
   r_success (fst (executeArbitrageTrade (exampleExecEnv 30) exampleOpportunity True)) = True"
proof -
  have k: "\<forall>key. resolvePrivateKey exampleBotConfig None = Some key \<and> key \<noteq> []
             \<longrightarrow> length key = 66"
    by (simp add: resolvePrivateKey_def orElse_def truthy_def exampleBotConfig_def)
  have m: "\<not> 30 > maxGasOf exampleBotConfig"
    by (simp add: maxGasOf_def exampleBotConfig_def)
  have first: "r_success (fst (executeArbitrageTrade
                     ((exampleExecEnv 30) \<lparr> ee_startTime := 1500, ee_endTime := 1600 \<rparr>)
                     exampleOpportunity True))"
    using simulation_success [of "(exampleExecEnv 30) \<lparr> ee_startTime := 1500, ee_endTime := 1600 \<rparr>"
        exampleBotConfig 30 exampleOpportunity] k m
    by (simp add: example_exec_fields)
  show ?thesis
    using first
    by (simp add: example_scan_trace example_scan_registry insertAll_def evictStale_def
        isStale_def getOpportunities_def manualExecute_def example_opportunity_fields
        example_simulation_30)
qed

text \<open>
  C5. In a scan cycle that passes the gas gate, take a compared pair \<open>i < j\<close> of
  fulfilled quotes with finite amounts, non-zero input amounts and a non-zero average
  price, each price being output amount over input amount. The loop body qualifies the
  pair exactly when the gross spread percent \<open>|price1 - price2| / average * 100\<close>, the
  net percent \<open>net / notional * 100\<close> and the net profit in USD
  \<open>|price1 - price2| * notional - gas cost - notional * 0.0005\<close> reach their
  thresholds, and the opportunity it then returns stores exactly these three figures,
  the loan fee and the gas cost; scanTokenPair returns that opportunity, the cycle
  inserts it, and it is listed after the cycle unless it is stale or replaced under its
  id. Every opportunity the cycle creates, and every registry entry after the cycle,
  has its net percent, net profit and loan fee derived from its own prices, notional and
  gas cost.
\<close>

theorem net_profit_derived_from_inputs:
  assumes gas: "se_gasPrice env = Some gasGwei" "\<not> gasGwei > maxGasPriceGwei config"
    and k: "k < length (tokenPairs config)"
    and ij: "i < j" "j < 3"
    and q1: "dexQuotesOf (se_pair env k) ! i = Some q1"
    and q2: "dexQuotesOf (se_pair env k) ! j = Some q2"
    and a1: "toAmount q1 = Fin a1" "fromAmount q1 = Fin b1" "b1 \<noteq> 0"
    and a2: "toAmount q2 = Fin a2" "fromAmount q2 = Fin b2" "b2 \<noteq> 0"
    and avg: "a1 / b1 + a2 / b2 \<noteq> 0"
    and g: "gasCostUsd gasGwei = Fin gasUsd"
    and n: "notional = real_of_int (loanAmountOf (se_botConfig env))"
    and gross: "gross = spec_grossSpreadPercent (a1 / b1) (a2 / b2)"
    and net: "net = spec_netProfitUsd (a1 / b1) (a2 / b2) notional gasUsd"
    and pct: "netPct = spec_netProfitPercent net notional"
    and found: "found = compareQuotes config (pair_tokenIn (tokenPairs config ! k))
                  (pair_tokenOut (tokenPairs config ! k)) (loanAmountOf (se_botConfig env))
                  gasGwei (pe_stamp (se_pair env k)) (dexQuotesOf (se_pair env k)) (i, j)"
    and news: "news = newOpportunitiesOf config env gasGwei"
  shows "price q1 = Fin (a1 / b1) \<and> price q2 = Fin (a2 / b2) \<and>
         (found \<noteq> None \<longleftrightarrow>
            minProfitPercent config \<le> gross \<and> minNetProfitPercent config \<le> netPct \<and>
            minProfitUsd config \<le> net) \<and>
         (\<forall>opp. found = Some opp \<longrightarrow>
            profitPercent opp = Fin gross \<and>
            estimatedProfitUsd opp = Fin net \<and>
            netProfitPercent opp = Fin netPct \<and>
            flashLoanFeeUsd opp = Fin (notional * (5 / 10000)) \<and>
            estimatedGasCostUsd opp = Fin gasUsd \<and>
            opp \<in> set (fst (scanTokenPair (se_botConfig env)
                              (pair_tokenIn (tokenPairs config ! k))
                              (pair_tokenOut (tokenPairs config ! k)) config gasGwei
                              (se_pair env k))) \<and>
            opp \<in> set news \<and>
            (se_now env - timestamp opp \<le> 60000 \<and>
             (\<forall>other \<in> set news. opp_id other = opp_id opp \<longrightarrow> other = opp) \<longrightarrow>
               opp \<in> set (getOpportunities (fst (scan config env reg))))) \<and>
         (\<forall>e \<in> set news. derivedFromInputs e) \<and>
         ((\<forall>e \<in> set (getOpportunities reg). derivedFromInputs e) \<longrightarrow>
          (\<forall>e \<in> set (getOpportunities (fst (scan config env reg))). derivedFromInputs e))"
proof -
  let ?tIn = "pair_tokenIn (tokenPairs config ! k)"
  let ?tOut = "pair_tokenOut (tokenPairs config ! k)"
  let ?loan = "loanAmountOf (se_botConfig env)"
  let ?st = "pe_stamp (se_pair env k) i j"
  have p1: "price q1 = Fin (a1 / b1)" and p2: "price q2 = Fin (a2 / b2)"
    using a1 a2 by (simp_all add: price_def)
  have l: "notional \<noteq> 0"
    using loanAmountOf_nonzero [of "se_botConfig env"] n by simp
  have cg: "grossPercent q1 q2 = Fin gross"
    using avg
    by (simp add: grossPercent_def priceDiff_def avgPrice_def jsub_def p1 p2 gross
        spec_grossSpreadPercent_def)
  have cn: "netProfitUsd ?loan gasGwei q1 q2 = Fin net"
    by (simp add: netProfitUsd_def grossProfitUsd_def priceDiff_def jsub_def p1 p2 g
        loanFeeUsd_def flashLoanFeePercent_def spec_netProfitUsd_def net n)
  have cp: "netPercent ?loan gasGwei q1 q2 = Fin netPct"
    using l by (simp add: netPercent_def cn spec_netProfitPercent_def pct n)
  have prof: "isProfitable config ?loan gasGwei q1 q2 \<longleftrightarrow>
      minProfitPercent config \<le> gross \<and> minNetProfitPercent config \<le> netPct \<and>
      minProfitUsd config \<le> net"
    by (auto simp: isProfitable_def cg cn cp)
  have f: "found = comparePair config ?tIn ?tOut ?loan gasGwei ?st q1 q2"
    by (simp add: found compareQuotes_def q1 q2)
  have iff: "found \<noteq> None \<longleftrightarrow>
      minProfitPercent config \<le> gross \<and> minNetProfitPercent config \<le> netPct \<and>
      minProfitUsd config \<le> net"
    using prof by (simp add: f comparePair_def)
  have inpair: "(i, j) \<in> set (quotePairs 3)"
    using ij by (simp add: quotePairs_3_iff)
  have created: "profitPercent opp = Fin gross \<and>
            estimatedProfitUsd opp = Fin net \<and>
            netProfitPercent opp = Fin netPct \<and>
            flashLoanFeeUsd opp = Fin (notional * (5 / 10000)) \<and>
            estimatedGasCostUsd opp = Fin gasUsd \<and>
            opp \<in> set (fst (scanTokenPair (se_botConfig env) ?tIn ?tOut config gasGwei
                              (se_pair env k))) \<and>
            opp \<in> set news \<and>
            (se_now env - timestamp opp \<le> 60000 \<and>
             (\<forall>other \<in> set news. opp_id other = opp_id opp \<longrightarrow> other = opp) \<longrightarrow>
               opp \<in> set (getOpportunities (fst (scan config env reg))))"
    if s: "found = Some opp" for opp
  proof -
    have c: "comparePair config ?tIn ?tOut ?loan gasGwei ?st q1 q2 = Some opp"
      using s f by simp
    then have o: "opp = makeOpportunity ?tIn ?tOut ?loan gasGwei ?st q1 q2"
      by (simp add: comparePair_Some)
    have fields: "profitPercent opp = Fin gross" "estimatedProfitUsd opp = Fin net"
      "netProfitPercent opp = Fin netPct" "flashLoanFeeUsd opp = Fin (notional * (5 / 10000))"
      "estimatedGasCostUsd opp = Fin gasUsd"
      by (simp_all add: o makeOpportunity_def cg cn cp g loanFeeUsd_def flashLoanFeePercent_def n)
    have "\<exists>x \<in> set (quotePairs 3).
        compareQuotes config ?tIn ?tOut ?loan gasGwei (pe_stamp (se_pair env k))
          (dexQuotesOf (se_pair env k)) x = Some opp"
    proof (rule bexI [OF _ inpair])
      show "compareQuotes config ?tIn ?tOut ?loan gasGwei (pe_stamp (se_pair env k))
          (dexQuotesOf (se_pair env k)) (i, j) = Some opp"
        using s found by simp
    qed
    then have m1: "opp \<in> set (fst (scanTokenPair (se_botConfig env) ?tIn ?tOut config gasGwei
                              (se_pair env k)))"
      by (simp add: scanTokenPair_def Let_def set_map_filter length_dexQuotesOf)
    have m2: "opp \<in> set news"
      unfolding news newOpportunities_iff using k inpair q1 q2 c by blast
    have m3: "opp \<in> set (getOpportunities (fst (scan config env reg)))"
      if "se_now env - timestamp opp \<le> 60000 \<and>
          (\<forall>other \<in> set news. opp_id other = opp_id opp \<longrightarrow> other = opp)"
    proof -
      have "opp \<in> set (getOpportunities (insertAll news reg))"
        using m2 that by (simp add: insertAll_keeps_new)
      then show ?thesis
        using that gas news by (simp add: scan_passed getOpportunities_evictStale)
    qed
    show ?thesis using fields m1 m2 m3 by blast
  qed
  have d1: "\<forall>e \<in> set news. derivedFromInputs e"
    using newOpportunities_derived news by blast
  have d2: "(\<forall>e \<in> set (getOpportunities reg). derivedFromInputs e) \<longrightarrow>
          (\<forall>e \<in> set (getOpportunities (fst (scan config env reg))). derivedFromInputs e)"
    using scan_registry_subset [of config env reg] newOpportunities_derived by blast
  show ?thesis
    using p1 p2 iff created d1 d2 by blast
qed

theorem net_profit_derived_from_inputs_witness:
  "compareQuotes exampleConfig ''USDC'' ''USDT'' 10000 30 (pe_stamp examplePairEnv)
     (dexQuotesOf examplePairEnv) (0, 1) = Some exampleOpportunity \<and>
   profitPercent exampleOpportunity = Fin (spec_grossSpreadPercent 1 (1012 / 1000)) \<and>
   estimatedProfitUsd exampleOpportunity
     = Fin (spec_netProfitUsd 1 (1012 / 1000) 10000 (105 / 10000)) \<and>
   netProfitPercent exampleOpportunity
     = Fin (spec_netProfitPercent (spec_netProfitUsd 1 (1012 / 1000) 10000 (105 / 10000)) 10000) \<and>
   exampleOpportunity \<in> set (fst (scanTokenPair (Some exampleBotConfig) ''USDC'' ''USDT''
                                      exampleConfig 30 examplePairEnv)) \<and>
   exampleOpportunity
     \<in> set (getOpportunities (fst (scan exampleConfig (exampleScanEnv 30 2000) [])))"
proof -
  have h1: "se_gasPrice (exampleScanEnv 30 2000) = Some 30"
    by (simp add: exampleScanEnv_def)
  have h2: "\<not> 30 > maxGasPriceGwei exampleConfig"
    by (simp add: exampleConfig_def)
  have h3: "0 < length (tokenPairs exampleConfig)"
    by (simp add: exampleConfig_def)
  have h4: "(0::nat) < 1" "(1::nat) < 3"
    by simp_all
  have h5: "dexQuotesOf (se_pair (exampleScanEnv 30 2000) 0) ! 0 = Some exampleQuoteA"
    "dexQuotesOf (se_pair (exampleScanEnv 30 2000) 0) ! 1 = Some exampleQuoteB"
    by (simp_all add: exampleScanEnv_def example_dexQuotes)
  have qa: "toAmount exampleQuoteA = Fin 10000000000" "fromAmount exampleQuoteA = Fin 10000000000"
    "(10000000000::real) \<noteq> 0"
    by (simp_all add: exampleQuoteA_def)
  have qb: "toAmount exampleQuoteB = Fin 10120000000" "fromAmount exampleQuoteB = Fin 10000000000"
    "(10000000000::real) \<noteq> 0"
    by (simp_all add: exampleQuoteA_def exampleQuoteB_def)
  have av: "(10000000000::real) / 10000000000 + 10120000000 / 10000000000 \<noteq> 0"
    by simp
  have e: "se_pair (exampleScanEnv 30 2000) 0 = examplePairEnv"
    "se_botConfig (exampleScanEnv 30 2000) = Some exampleBotConfig"
    "se_now (exampleScanEnv 30 2000) = 2000"
    "tokenPairs exampleConfig ! 0 = \<lparr> pair_tokenIn = ''USDC'', pair_tokenOut = ''USDT'' \<rparr>"
    "loanAmountOf (Some exampleBotConfig) = 10000"
    by (simp_all add: exampleScanEnv_def exampleConfig_def loanAmountOf_def exampleBotConfig_def)
  have t: "\<forall>opp. compareQuotes exampleConfig ''USDC'' ''USDT'' 10000 30 (pe_stamp examplePairEnv)
             (dexQuotesOf examplePairEnv) (0, 1) = Some opp \<longrightarrow>
      profitPercent opp = Fin (spec_grossSpreadPercent 1 (1012 / 1000)) \<and>
      estimatedProfitUsd opp = Fin (spec_netProfitUsd 1 (1012 / 1000) 10000 (105 / 10000)) \<and>
      netProfitPercent opp
        = Fin (spec_netProfitPercent (spec_netProfitUsd 1 (1012 / 1000) 10000 (105 / 10000)) 10000) \<and>
      opp \<in> set (fst (scanTokenPair (Some exampleBotConfig) ''USDC'' ''USDT''
                                      exampleConfig 30 examplePairEnv)) \<and>
      (2000 - timestamp opp \<le> 60000 \<and>
       (\<forall>other \<in> set (newOpportunitiesOf exampleConfig (exampleScanEnv 30 2000) 30).
          opp_id other = opp_id opp \<longrightarrow> other = opp) \<longrightarrow>
         opp \<in> set (getOpportunities (fst (scan exampleConfig (exampleScanEnv 30 2000) []))))"
    using net_profit_derived_from_inputs [OF h1 h2 h3 h4 h5 qa qb av example_gas30
        refl refl refl refl refl refl, of "[]"]
    by (simp add: e)
  have u: "\<forall>other \<in> set (newOpportunitiesOf exampleConfig (exampleScanEnv 30 2000) 30).
          opp_id other = opp_id exampleOpportunity \<longrightarrow> other = exampleOpportunity"
    by (simp add: example_newOpportunities)
  show ?thesis
    using t example_compareQuotes u
    by (simp add: example_opportunity_fields)
qed

text \<open>
  C6 (amended). A qualifying candidate built from two quotes buys at the venue of the
  lower price and sells at the venue of the higher price: its buy and sell venues are
  the venues of the two quotes, one each, with \<open>buyPrice = min(price1, price2)\<close> and
  \<open>sellPrice = max(price1, price2)\<close>, and they differ whenever the two quotes name
  different venues. For two venues quoting 1.000 and 1.012, a notional of 10000, a gas
  cost within a cent of $3 and the thresholds (0.3, 0.15, 1.5), an opportunity is
  created with a gross spread of 1200/1006 percent (about 1.19), a loan fee of $5, a net
  profit of $120 less the gas cost less $5 (within a cent of $112) and the venue of the
  1.000 quote as buy venue.
\<close>

theorem buy_low_sell_high:
  "(isProfitable config loanAmount gasGwei q1 q2 \<and>
    opp = makeOpportunity tIn tOut loanAmount gasGwei st q1 q2 \<longrightarrow>
      (if jlt (price q1) (price q2)
       then buyDex opp = dex q1 \<and> buyPrice opp = price q1 \<and>
            sellDex opp = dex q2 \<and> sellPrice opp = price q2
       else buyDex opp = dex q2 \<and> buyPrice opp = price q2 \<and>
            sellDex opp = dex q1 \<and> sellPrice opp = price q1) \<and>
      buyPrice opp = jmin (price q1) (price q2) \<and>
      sellPrice opp = jmax (price q1) (price q2) \<and>
      jge (sellPrice opp) (buyPrice opp) \<and>
      (dex q1 \<noteq> dex q2 \<longrightarrow> buyDex opp \<noteq> sellDex opp)) \<and>
   (price q1 = Fin 1 \<and> price q2 = Fin (1012 / 1000) \<and>
    gasCostUsd gasGwei = Fin gasUsd \<and> \<bar>gasUsd - 3\<bar> \<le> 1 / 100 \<and>
    minProfitPercent config = 3 / 10 \<and> minNetProfitPercent config = 15 / 100 \<and>
    minProfitUsd config = 15 / 10 \<longrightarrow>
      (\<exists>created. comparePair config tIn tOut 10000 gasGwei st q1 q2 = Some created \<and>
         profitPercent created = Fin (1200 / 1006) \<and>
         estimatedProfitUsd created = Fin (120 - gasUsd - 5) \<and>
         \<bar>(120 - gasUsd - 5) - 112\<bar> \<le> 1 / 100 \<and>
         flashLoanFeeUsd created = Fin 5 \<and>
         buyDex created = dex q1 \<and> sellDex created = dex q2))"
proof (intro conjI impI)
  assume a: "isProfitable config loanAmount gasGwei q1 q2 \<and>
    opp = makeOpportunity tIn tOut loanAmount gasGwei st q1 q2"
  then obtain a1 b1 where p: "price q1 = Fin a1" "price q2 = Fin b1"
    using isProfitable_finite by blast
  from a have o: "opp = makeOpportunity tIn tOut loanAmount gasGwei st q1 q2" by simp
  show "if jlt (price q1) (price q2)
       then buyDex opp = dex q1 \<and> buyPrice opp = price q1 \<and>
            sellDex opp = dex q2 \<and> sellPrice opp = price q2
       else buyDex opp = dex q2 \<and> buyPrice opp = price q2 \<and>
            sellDex opp = dex q1 \<and> sellPrice opp = price q1"
    by (simp add: o makeOpportunity_def p)
  show "buyPrice opp = jmin (price q1) (price q2)" by (simp add: o makeOpportunity_def)
  show "sellPrice opp = jmax (price q1) (price q2)" by (simp add: o makeOpportunity_def)
  show "jge (sellPrice opp) (buyPrice opp)" by (simp add: o makeOpportunity_def p)
  show "buyDex opp \<noteq> sellDex opp" if "dex q1 \<noteq> dex q2"
    using that by (simp add: o makeOpportunity_def)
next
  assume s: "price q1 = Fin 1 \<and> price q2 = Fin (1012 / 1000) \<and>
    gasCostUsd gasGwei = Fin gasUsd \<and> \<bar>gasUsd - 3\<bar> \<le> 1 / 100 \<and>
    minProfitPercent config = 3 / 10 \<and> minNetProfitPercent config = 15 / 100 \<and>
    minProfitUsd config = 15 / 10"
  have gross: "grossPercent q1 q2 = Fin (1200 / 1006)"
    using s by (simp add: grossPercent_def priceDiff_def avgPrice_def jsub_def)
  have net: "netProfitUsd 10000 gasGwei q1 q2 = Fin (120 - gasUsd - 5)"
    using s by (simp add: netProfitUsd_def grossProfitUsd_def priceDiff_def jsub_def
        loanFeeUsd_def flashLoanFeePercent_def)
  have netp: "netPercent 10000 gasGwei q1 q2 = Fin ((120 - gasUsd - 5) / 10000 * 100)"
    by (simp add: netPercent_def net)
  have bounds: "11199 / 100 \<le> 120 - gasUsd - 5" "120 - gasUsd - 5 \<le> 11201 / 100"
  proof -
    have g: "\<bar>gasUsd - 3\<bar> \<le> 1 / 100" using s by blast
    show "11199 / 100 \<le> 120 - gasUsd - 5" using g by linarith
    show "120 - gasUsd - 5 \<le> 11201 / 100" using g by linarith
  qed
  have prof: "isProfitable config 10000 gasGwei q1 q2"
    using s bounds by (simp add: isProfitable_def gross net netp)
  show "\<exists>created. comparePair config tIn tOut 10000 gasGwei st q1 q2 = Some created \<and>
         profitPercent created = Fin (1200 / 1006) \<and>
         estimatedProfitUsd created = Fin (120 - gasUsd - 5) \<and>
         \<bar>(120 - gasUsd - 5) - 112\<bar> \<le> 1 / 100 \<and>
         flashLoanFeeUsd created = Fin 5 \<and>
         buyDex created = dex q1 \<and> sellDex created = dex q2"
  proof -
    have near: "\<bar>(120 - gasUsd - 5) - 112\<bar> \<le> 1 / 100"
      using bounds by linarith
    have lt: "jlt (price q1) (price q2)" using s by simp
    show ?thesis
      using prof near lt
      by (simp add: comparePair_def makeOpportunity_def gross net loanFeeUsd_def
          flashLoanFeePercent_def)
  qed
qed

theorem buy_low_sell_high_witness:
  "isProfitable exampleConfig 10000 8571 exampleQuoteA exampleQuoteB \<and>
   buyDex (makeOpportunity ''USDC'' ''USDT'' 10000 8571 exampleStamp
             exampleQuoteA exampleQuoteB) = ''1inch'' \<and>
   sellDex (makeOpportunity ''USDC'' ''USDT'' 10000 8571 exampleStamp
              exampleQuoteA exampleQuoteB) = ''SushiSwap'' \<and>
   (\<exists>created. comparePair exampleConfig ''USDC'' ''USDT'' 10000 8571 exampleStamp
                 exampleQuoteA exampleQuoteB = Some created \<and>
      profitPercent created = Fin (1200 / 1006) \<and>
      estimatedProfitUsd created = Fin (120 - 299985 / 100000 - 5) \<and>
      buyDex created = ''1inch'')"
proof -
  have d: "dex exampleQuoteA = ''1inch''" "dex exampleQuoteB = ''SushiSwap''"
    by (simp_all add: exampleQuoteA_def exampleQuoteB_def)
  have c: "minProfitPercent exampleConfig = 3 / 10" "minNetProfitPercent exampleConfig = 15 / 100"
    "minProfitUsd exampleConfig = 15 / 10"
    by (simp_all add: exampleConfig_def)
  have g: "\<bar>(299985 / 100000 :: real) - 3\<bar> \<le> 1 / 100"
    by simp
  show ?thesis
    using buy_low_sell_high [of exampleConfig 10000 8571 exampleQuoteA exampleQuoteB
        "makeOpportunity ''USDC'' ''USDT'' 10000 8571 exampleStamp
           exampleQuoteA exampleQuoteB" "''USDC''" "''USDT''" exampleStamp "299985 / 100000"]
      example_scenario_profitable example_prices example_gas_scenario d c g
    by auto
qed

text \<open>
  The scenario at a gas price of 8571 Gwei (a gas cost of $2.99985): the net profit of
  the created opportunity is $112.00015, which is not about $104.
\<close>

theorem scenario_net_profit_counterexample:
  "map_option estimatedProfitUsd
     (comparePair exampleConfig ''USDC'' ''USDT'' 10000 8571 exampleStamp
        exampleQuoteA exampleQuoteB) = Some (Fin (11200015 / 100000)) \<and>
   \<not> \<bar>(11200015 / 100000 :: real) - 104\<bar> \<le> 1"
  by (simp add: comparePair_def example_scenario_profitable makeOpportunity_def
      example_gas_scenario_net)

text \<open>
  C7 (amended). In every scan cycle that passes the gas gate, the registry entries
  whose age at the eviction pass exceeds 60 seconds are removed, whether or not they
  were executed, and are absent from getOpportunities() afterwards; the eviction pass
  runs on the registry that already holds the cycle's insertions, so a candidate created
  in the cycle is kept when the eviction pass starts at most 60 seconds after the
  candidate's timestamp.
\<close>

theorem eviction_after_insertion:
  assumes "se_gasPrice env = Some gasGwei" and "\<not> gasGwei > maxGasPriceGwei config"
    and "news = newOpportunitiesOf config env gasGwei"
  shows "set (getOpportunities (fst (scan config env reg))) =
           {opp \<in> set (getOpportunities (insertAll news reg)).
              se_now env - timestamp opp \<le> 60000} \<and>
         (\<forall>opp \<in> set news.
            se_now env - timestamp opp \<le> 60000 \<and>
            (\<forall>other \<in> set news. opp_id other = opp_id opp \<longrightarrow> other = opp) \<longrightarrow>
              opp \<in> set (getOpportunities (fst (scan config env reg))))"
proof -
  have s: "set (getOpportunities (fst (scan config env reg))) =
           {opp \<in> set (getOpportunities (insertAll news reg)).
              se_now env - timestamp opp \<le> 60000}"
    using assms by (simp add: scan_passed getOpportunities_evictStale)
  show ?thesis
    unfolding s using insertAll_keeps_new [of _ news reg] by blast
qed

theorem eviction_after_insertion_witness:
  "set (getOpportunities (fst (scan exampleConfig (exampleScanEnv 30 2000) []))) =
     {opp \<in> set (getOpportunities (insertAll [exampleOpportunity] [])).
        2000 - timestamp opp \<le> 60000} \<and>
   exampleOpportunity \<in> set (getOpportunities (fst (scan exampleConfig (exampleScanEnv 30 2000) [])))"
proof -
  have h1: "se_gasPrice (exampleScanEnv 30 2000) = Some 30"
    and n: "se_now (exampleScanEnv 30 2000) = 2000"
    by (simp_all add: exampleScanEnv_def)
  have h2: "\<not> 30 > maxGasPriceGwei exampleConfig"
    by (simp add: exampleConfig_def)
  have h3: "[exampleOpportunity] = newOpportunitiesOf exampleConfig (exampleScanEnv 30 2000) 30"
    by (simp add: example_newOpportunities)
  show ?thesis
    using eviction_after_insertion [OF h1 h2 h3, of "[]"]
    by (auto simp: n example_opportunity_fields insertAll_def getOpportunities_def)
qed

text \<open>
  Two cycles against the claim as stated. A cycle at 80 Gwei with a ceiling of 60 leaves
  an entry of age 99 seconds in the registry; a cycle whose eviction pass starts 60.001
  seconds after the timestamp of its own candidate evicts that candidate.
\<close>

theorem eviction_every_cycle_counterexample:
  "isStale 100000 exampleOpportunity \<and>
   getOpportunities (fst (scan exampleConfig (exampleScanEnv 80 100000)
                            [(exampleId, exampleOpportunity)])) = [exampleOpportunity] \<and>
   newOpportunitiesOf exampleConfig (exampleScanEnv 30 61001) 30 = [exampleOpportunity] \<and>
   getOpportunities (fst (scan exampleConfig (exampleScanEnv 30 61001) [])) = []"
proof -
  have "scan exampleConfig (exampleScanEnv 80 100000) [(exampleId, exampleOpportunity)] =
      ([(exampleId, exampleOpportunity)],
       [ActivityLog ''1_preparation'', GetGasPrice, ActivityLog ''1_gas_check_failed''])"
    by (rule scan_skipped [of _ 80]) (simp_all add: exampleScanEnv_def exampleConfig_def)
  then show ?thesis
    by (simp add: example_scan_registry example_newOpportunities getOpportunities_def
        isStale_def evictStale_def insertAll_def example_opportunity_fields)
qed

text \<open>
  C8. In every scan cycle in which the gas price read from the chain exceeds the
  configured ceiling, the trace holds exactly one gas-too-high skip log entry, no quote
  request and no dispatch to the executor, and the registry is unchanged.
\<close>

theorem gas_too_high_skips_cycle:
  assumes "se_gasPrice env = Some gasGwei" and "gasGwei > maxGasPriceGwei config"
  shows "count_list (snd (scan config env reg)) (ActivityLog ''1_gas_check_failed'') = 1 \<and>
         (\<forall>src dst amount. GetQuote src dst amount \<notin> set (snd (scan config env reg))) \<and>
         (\<forall>i sim. ExecuteTrade i sim \<notin> set (snd (scan config env reg))) \<and>
         fst (scan config env reg) = reg"
  using assms by (simp add: scan_skipped)

theorem gas_too_high_skips_cycle_witness:
  "count_list (snd (scan exampleConfig (exampleScanEnv 80 2000) []))
     (ActivityLog ''1_gas_check_failed'') = 1 \<and>
   fst (scan exampleConfig (exampleScanEnv 80 2000) []) = []"
proof -
  have h1: "se_gasPrice (exampleScanEnv 80 2000) = Some 80"
    by (simp add: exampleScanEnv_def)
  have h2: "80 > maxGasPriceGwei exampleConfig"
    by (simp add: exampleConfig_def)
  show ?thesis
    using gas_too_high_skips_cycle [OF h1 h2, of "[]"] by simp
qed

text \<open>
  C9. In a real-mode attempt every request to the route service names the address
  derived from the private key in its \<open>from\<close> field, and a request has no other
  field for a credential. Two attempts that differ only in the private key (of the
  configuration or of the environment), whose keys both have 66 characters after
  normalization and derive the same address, send the same list of requests to the
  route service.
\<close>

theorem quote_requests_independent_of_key:
  assumes "ee_config env = Some config"
    and "env' = env \<lparr> ee_config := Some (config \<lparr> bc_privateKey := configKey' \<rparr>),
                         ee_PRIVATE_KEY := envKey' \<rparr>"
    and "resolvePrivateKey config (ee_PRIVATE_KEY env) = Some key" and "length key = 66"
    and "resolvePrivateKey (config \<lparr> bc_privateKey := configKey' \<rparr>) envKey' = Some key'"
    and "length key' = 66"
    and "ee_walletAddress env key = ee_walletAddress env key'"
  shows "quoteSourceRequests (snd (executeArbitrageTrade env opportunity False)) =
           quoteSourceRequests (snd (executeArbitrageTrade env' opportunity False)) \<and>
         (\<forall>r \<in> set (quoteSourceRequests (snd (executeArbitrageTrade env opportunity False))).
            ee_walletAddress env key = Some (sr_from r))"
proof -
  let ?config' = "config \<lparr> bc_privateKey := configKey' \<rparr>"
  have ne: "key \<noteq> []" "key' \<noteq> []"
    using assms(4,6) by auto
  have e': "ee_config env' = Some ?config'" "ee_PRIVATE_KEY env' = envKey'"
    "ee_gasPrice env' = ee_gasPrice env" "ee_walletAddress env' = ee_walletAddress env"
    "ee_buySwap env' = ee_buySwap env" "ee_sellSwap env' = ee_sellSwap env"
    by (simp_all add: assms(2))
  have c1: "checkConfigAndKey env False =
      (if bc_enableRealTrading config \<noteq> Some True then (Inl RealTradingDisabled, [])
       else (Inr (config, Some key), [ActivityLog ''2_key_validation'']))"
    using assms(1,3,4) ne by (simp add: checkConfigAndKey_def truthy_def Let_def)
  have c2: "checkConfigAndKey env' False =
      (if bc_enableRealTrading config \<noteq> Some True then (Inl RealTradingDisabled, [])
       else (Inr (?config', Some key'), [ActivityLog ''2_key_validation'']))"
    using assms(5,6) ne e' by (simp add: checkConfigAndKey_def truthy_def Let_def)
  have m: "maxGasOf ?config' = maxGasOf config"
    by (simp add: maxGasOf_def)
  have g: "checkGas env' ?config' = checkGas env config"
    by (simp add: checkGas_def e' m cong: option.case_cong)
  have b: "buildSwaps env config (Some key) opportunity
      = buildSwaps env' ?config' (Some key') opportunity"
    by (rule buildSwaps_key_independent) (simp_all add: e' assms(7) ne)
  have same: "quoteSourceRequests (snd (executeArbitrageTrade env opportunity False)) =
           quoteSourceRequests (snd (executeArbitrageTrade env' opportunity False))"
    by (simp add: real_mode_requests c1 c2 g b split: prod.splits sum.splits)
  have from_address: "ee_walletAddress env key = Some (sr_from r)"
    if "r \<in> set (quoteSourceRequests (snd (executeArbitrageTrade env opportunity False)))" for r
  proof -
    have "r \<in> set (quoteSourceRequests (snd (buildSwaps env config (Some key) opportunity)))"
      using that
      by (auto simp: real_mode_requests c1 split: if_splits prod.splits sum.splits)
    then show ?thesis by (rule buildSwaps_requests_from)
  qed
  show ?thesis using same from_address by blast
qed

theorem quote_requests_independent_of_key_witness:
  "exampleKeyA \<noteq> exampleKeyB \<and>
   quoteSourceRequests (snd (executeArbitrageTrade (exampleRealEnv (Some exampleKeyA))
                               exampleOpportunity False)) =
   quoteSourceRequests (snd (executeArbitrageTrade (exampleRealEnv (Some exampleKeyB))
                               exampleOpportunity False)) \<and>
   length (quoteSourceRequests (snd (executeArbitrageTrade (exampleRealEnv (Some exampleKeyA))
                                       exampleOpportunity False))) = 2"
proof -
  have h1: "ee_config (exampleRealEnv (Some exampleKeyA)) = Some (exampleRealConfig (Some exampleKeyA))"
    by (simp add: exampleRealEnv_def)
  have h2: "exampleRealEnv (Some exampleKeyB) =
      (exampleRealEnv (Some exampleKeyA))
        \<lparr> ee_config := Some ((exampleRealConfig (Some exampleKeyA))
                                \<lparr> bc_privateKey := Some exampleKeyB \<rparr>),
          ee_PRIVATE_KEY := None \<rparr>"
    by (simp add: exampleRealEnv_def exampleRealConfig_def exampleExecEnv_def)
  have h3: "resolvePrivateKey (exampleRealConfig (Some exampleKeyA))
              (ee_PRIVATE_KEY (exampleRealEnv (Some exampleKeyA))) = Some exampleKeyA"
    by (simp add: resolvePrivateKey_def exampleRealConfig_def orElse_def truthy_def trim_def
        isSpace_def exampleKeyA_def exampleRealEnv_def exampleExecEnv_def)
  have h4: "length exampleKeyA = 66" by (simp add: exampleKeyA_def)
  have h5: "resolvePrivateKey ((exampleRealConfig (Some exampleKeyA))
                                 \<lparr> bc_privateKey := Some exampleKeyB \<rparr>) None = Some exampleKeyB"
    by (simp add: resolvePrivateKey_def exampleRealConfig_def orElse_def truthy_def trim_def
        isSpace_def exampleKeyB_def)
  have h6: "length exampleKeyB = 66" by (simp add: exampleKeyB_def)
  have h7: "ee_walletAddress (exampleRealEnv (Some exampleKeyA)) exampleKeyA
          = ee_walletAddress (exampleRealEnv (Some exampleKeyA)) exampleKeyB"
    by (simp add: exampleRealEnv_def)
  have d: "exampleKeyA \<noteq> exampleKeyB"
    by (simp add: exampleKeyA_def exampleKeyB_def)
  have len: "length (quoteSourceRequests (snd (executeArbitrageTrade
      (exampleRealEnv (Some exampleKeyA)) exampleOpportunity False))) = 2"
    by (simp add: example_real_requests)
  show ?thesis
    using quote_requests_independent_of_key [OF h1 h2 h3 h4 h5 h6 h7, of exampleOpportunity] d len
    by blast
qed

text \<open>
  C10 (amended). If the configuration exists and a private key is present (from the
  configuration or the environment) whose length after prefix normalization is not 66
  characters, every execution attempt fails before any chain interaction: with the
  invalid-key-format error when it is a simulation-mode attempt or real trading is
  enabled, and with the real-trading-disabled error when it is a real-mode attempt and
  real trading is not enabled.
\<close>

theorem malformed_key_rejected:
  assumes "ee_config env = Some config"
    and "resolvePrivateKey config (ee_PRIVATE_KEY env) = Some key"
    and "key \<noteq> []" and "length key \<noteq> 66"
  shows "r_success (fst (executeArbitrageTrade env opportunity isSimulation)) = False \<and>
         (\<forall>ev \<in> set (snd (executeArbitrageTrade env opportunity isSimulation)).
            \<not> chainInteraction ev) \<and>
         r_error (fst (executeArbitrageTrade env opportunity isSimulation)) =
           Some (if \<not> isSimulation \<and> bc_enableRealTrading config \<noteq> Some True
                 then RealTradingDisabled else InvalidPrivateKeyFormat)"
proof -
  have "checkConfigAndKey env isSimulation =
      (if \<not> isSimulation \<and> bc_enableRealTrading config \<noteq> Some True
       then (Inl RealTradingDisabled, [])
       else (Inl InvalidPrivateKeyFormat, [ActivityLog ''2_validation_failed'']))"
    using assms by (simp add: checkConfigAndKey_def truthy_def Let_def)
  then show ?thesis
    by (simp add: executeArbitrageTrade_def tradePipeline_def)
qed

theorem malformed_key_rejected_witness:
  "r_success (fst (executeArbitrageTrade exampleBadKeyEnv exampleOpportunity True)) = False \<and>
   r_error (fst (executeArbitrageTrade exampleBadKeyEnv exampleOpportunity True))
     = Some InvalidPrivateKeyFormat \<and>
   filter chainInteraction (snd (executeArbitrageTrade exampleBadKeyEnv exampleOpportunity True))
     = []"
  using malformed_key_rejected [OF example_bad_key(1,2), of exampleOpportunity True]
  by (simp add: filter_empty_conv)

text \<open>
  A real-mode attempt with the three-character key while real trading is not enabled:
  it fails with the real-trading-disabled error, not with the invalid-key-format error.
\<close>

theorem malformed_key_other_error_counterexample:
  "resolvePrivateKey (exampleBotConfig \<lparr> bc_privateKey := Some ''abc'' \<rparr>)
     (ee_PRIVATE_KEY exampleBadKeyEnv) = Some ''0xabc'' \<and>
   r_error (fst (executeArbitrageTrade exampleBadKeyEnv exampleOpportunity False))
     = Some RealTradingDisabled"
  by (simp add: example_bad_key executeArbitrageTrade_def tradePipeline_def
      checkConfigAndKey_def)

end
